theory Spec2Isabelle
  imports Complex_Main "HOL-Library.Product_Lexorder" "HOL-Library.Multiset"
begin

section \<open>Values and errors\<close>

text \<open>
  The notebook works on NumPy/pandas \<open>float64\<close> columns. A cell is modelled by its IEEE
  special value or by the real number it denotes; rounding and the sign of zero are not
  modelled, so every arithmetic result below is the exact one.
\<close>

datatype f64 = Fin real | PInf | NInf | NaN

text \<open>The exceptions the modelled statements can raise.\<close>

datatype error = KeyError | IndexError | ValueError | TypeError

section \<open>The data store and \<open>h5_extractor\<close>\<close>

text \<open>
  A scalar attribute of a data set is a number, or the float \<open>-0.0\<close>: \<open>Num 0\<close> is the
  integer \<open>0\<close> or the float \<open>+0.0\<close>, and \<open>NegZero\<close> compares equal to zero but divides
  with the opposite sign.
\<close>

datatype scalar = Num real | NegZero

text \<open>
  A data set of the HDF5 file is a rectangular array indexed \<open>[time, site]\<close> with an
  attribute dictionary. It is kept site-major here: \<open>sites ds ! i\<close> is the slice
  \<open>ds[:, i]\<close>. The file itself is a dictionary from variable names to data sets.
\<close>

record dataset =
  sites :: "real list list"
  attrs :: "string \<rightharpoonup> scalar"

type_synonym h5file = "string \<rightharpoonup> dataset"

text \<open>
  NumPy's \<open>/\<close> on an array and a scalar: a zero divisor raises nothing (it only warns).
  A zero dividend gives \<open>nan\<close>; any other dividend gives an infinity, of the sign of the
  dividend over \<open>0\<close> or \<open>+0.0\<close> and of the opposite sign over \<open>-0.0\<close>.
\<close>

fun true_divide :: "real \<Rightarrow> scalar \<Rightarrow> f64" where
  "true_divide x (Num s) =
     (if s \<noteq> 0 then Fin (x / s)
      else if 0 < x then PInf
      else if x < 0 then NInf
      else NaN)"
| "true_divide x NegZero =
     (if 0 < x then NInf
      else if x < 0 then PInf
      else NaN)"

text \<open>
  \<^verbatim>\<open>
  def h5_extractor(raw_h5, variable, POI_indx):
      variable_raw = raw_h5[variable]
      variable_raw = variable_raw[:, POI_indx] / variable_raw.attrs['scale_factor']
      variable = pd.DataFrame(data = variable_raw)
      return variable;
  \<close>
  The returned one-column frame is modelled by its column.
\<close>

definition h5_extractor :: "h5file \<Rightarrow> string \<Rightarrow> nat \<Rightarrow> error + f64 list" where
  "h5_extractor raw_h5 variable POI_indx =
     (case raw_h5 variable of
        None \<Rightarrow> Inl KeyError
      | Some variable_raw \<Rightarrow>
          if length (sites variable_raw) \<le> POI_indx then Inl IndexError
          else (case attrs variable_raw ''scale_factor'' of
                  None \<Rightarrow> Inl KeyError
                | Some scale_factor \<Rightarrow>
                    Inr (map (\<lambda>x. true_divide x scale_factor)
                           (sites variable_raw ! POI_indx))))"


section \<open>Arithmetic on cells\<close>

text \<open>
  IEEE addition, negation, squaring, division by a positive count and square root on the
  special values; exact on finite operands.
\<close>

fun fadd :: "f64 \<Rightarrow> f64 \<Rightarrow> f64" where
  "fadd (Fin a) (Fin b) = Fin (a + b)"
| "fadd NaN _ = NaN"
| "fadd _ NaN = NaN"
| "fadd PInf NInf = NaN"
| "fadd NInf PInf = NaN"
| "fadd PInf _ = PInf"
| "fadd _ PInf = PInf"
| "fadd NInf _ = NInf"
| "fadd _ NInf = NInf"

fun fneg :: "f64 \<Rightarrow> f64" where
  "fneg (Fin a) = Fin (- a)"
| "fneg PInf = NInf"
| "fneg NInf = PInf"
| "fneg NaN = NaN"

fun fsquare :: "f64 \<Rightarrow> f64" where
  "fsquare (Fin a) = Fin (a * a)"
| "fsquare PInf = PInf"
| "fsquare NInf = PInf"
| "fsquare NaN = NaN"

fun fdiv_count :: "f64 \<Rightarrow> nat \<Rightarrow> f64" where
  "fdiv_count (Fin a) n = Fin (a / real n)"
| "fdiv_count x n = x"

fun fsqrt :: "f64 \<Rightarrow> f64" where
  "fsqrt (Fin a) = (if a < 0 then NaN else Fin (sqrt a))"
| "fsqrt PInf = PInf"
| "fsqrt NInf = NaN"
| "fsqrt NaN = NaN"

definition fsum :: "f64 list \<Rightarrow> f64" where
  "fsum xs = foldr fadd xs (Fin 0)"

text \<open>
  pandas \<open>mean\<close> (of a column and of a group alike) skips missing values and is \<open>nan\<close>
  when nothing is left.
\<close>

definition mean :: "f64 list \<Rightarrow> f64" where
  "mean xs =
     (let vals = filter (\<lambda>x. x \<noteq> NaN) xs
      in if vals = [] then NaN else fdiv_count (fsum vals) (length vals))"

text \<open>
  pandas \<open>std\<close> is the sample standard deviation (\<open>ddof = 1\<close>) of the values that are not
  missing; with fewer than two of them it is \<open>nan\<close>.
\<close>

definition std :: "f64 list \<Rightarrow> f64" where
  "std xs =
     (let vals = filter (\<lambda>x. x \<noteq> NaN) xs; m = mean xs
      in if length vals \<le> 1 then NaN
         else fsqrt (fdiv_count (fsum (map (\<lambda>x. fsquare (fadd x (fneg m))) vals))
                       (length vals - 1)))"

text \<open>
  Group keys are sorted; \<open>-inf\<close> comes before every number and \<open>inf\<close> after. Missing keys
  never reach the sort (their rows are dropped first); they are placed last.
\<close>

fun f64_rank :: "f64 \<Rightarrow> nat \<times> real" where
  "f64_rank NInf = (0, 0)"
| "f64_rank (Fin a) = (1, a)"
| "f64_rank PInf = (2, 0)"
| "f64_rank NaN = (3, 0)"

instantiation f64 :: linorder
begin

definition less_eq_f64 :: "f64 \<Rightarrow> f64 \<Rightarrow> bool" where
  "less_eq_f64 x y \<longleftrightarrow> f64_rank x \<le> f64_rank y"

definition less_f64 :: "f64 \<Rightarrow> f64 \<Rightarrow> bool" where
  "less_f64 x y \<longleftrightarrow> f64_rank x < f64_rank y"

instance
proof
  fix x y z :: f64
  show "(x < y) = (x \<le> y \<and> \<not> y \<le> x)"
    unfolding less_eq_f64_def less_f64_def by auto
  show "x \<le> x"
    unfolding less_eq_f64_def by simp
  show "x \<le> y \<Longrightarrow> y \<le> z \<Longrightarrow> x \<le> z"
    unfolding less_eq_f64_def by (rule order_trans)
  show "x \<le> y \<Longrightarrow> y \<le> x \<Longrightarrow> x = y"
    unfolding less_eq_f64_def by (cases x; cases y) auto
  show "x \<le> y \<or> y \<le> x"
    unfolding less_eq_f64_def by (rule linear)
qed

end

section \<open>Frames\<close>

text \<open>
  The time index is a column of timestamps; \<open>.dt.year\<close>, \<open>.dt.month\<close>, \<open>.dt.day\<close> and
  \<open>.dt.hour\<close> read its calendar fields.
\<close>

record timestamp =
  ts_year :: int
  ts_month :: int
  ts_day :: int
  ts_hour :: int

text \<open>A row of the frame built by \<open>windspeed_point_df_maker\<close>, one field per column.\<close>

record row =
  year :: int
  month :: int
  day :: int
  hour :: int
  latitude :: real
  longitude :: real
  windspeed :: f64
  avg_windspeed :: f64

text \<open>
  Rows of the three tables \<open>time_subset\<close> builds, one field per column. \<open>date\<close> is \<open>None\<close>
  until the column is assigned.
\<close>

record hour_row =
  hr_year :: int
  hr_month :: int
  hr_hour :: int
  hr_avg_windspeed :: f64
  hour_avg_windspeed :: f64
  hr_standard_dev :: f64

record day_row =
  dy_year :: int
  dy_month :: int
  dy_day :: int
  dy_avg_windspeed :: f64
  daily_avg_windspeed :: f64
  dy_standard_dev :: f64
  date :: "timestamp option"

record month_row =
  mo_month :: int
  mo_avg_windspeed :: f64
  month_avg_windspeed :: f64
  mo_standard_dev :: f64

text \<open>
  A frame of query points: its column labels, its row labels and its columns
  (\<open>cells P ! j\<close> is the column under the \<open>j\<close>-th label). Row labels are taken distinct.
\<close>

record points =
  columns :: "string list"
  index :: "int list"
  cells :: "real list list"

text \<open>
  Frames are objects: a function receives a reference, and an assignment to a column or to
  \<open>.columns\<close> changes the object every holder of the reference sees. The store is the list
  of the objects allocated so far; \<open>EmptyFrame\<close> is \<open>pd.DataFrame(dtype = float)\<close>.
\<close>

datatype pyobj =
    Frame "row list"
  | HourTable "hour_row list"
  | DayTable "day_row list"
  | MonthTable "month_row list"
  | Points points
  | EmptyFrame

type_synonym heap = "pyobj list"
type_synonym ref = nat

definition deref :: "heap \<Rightarrow> ref \<Rightarrow> pyobj option" where
  "deref h a = (if a < length h then Some (h ! a) else None)"

definition alloc :: "heap \<Rightarrow> pyobj \<Rightarrow> heap \<times> ref" where
  "alloc h obj = (h @ [obj], length h)"

section \<open>\<open>nearest_site\<close>\<close>

text \<open>
  \<^verbatim>\<open>
  def nearest_site(coord_array, lat_coord, lon_coord):
      tree = cKDTree(coord_array)
      lat_lon = np.array([lat_coord, lon_coord])
      dist, pos = tree.query(lat_lon)
      return pos;
  \<close>
  The search itself is SciPy's. Building the tree over \<open>coord_array\<close> and querying it is
  the parameter \<open>cKDTree_query\<close>, which yields the pair \<open>(dist, pos)\<close> or raises.
\<close>

type_synonym kdquery = "(real \<times> real) list \<Rightarrow> real \<times> real \<Rightarrow> error + (f64 \<times> nat)"

definition nearest_site :: "kdquery \<Rightarrow> (real \<times> real) list \<Rightarrow> real \<Rightarrow> real \<Rightarrow> error + nat" where
  "nearest_site cKDTree_query coord_array lat_coord lon_coord =
     (case cKDTree_query coord_array (lat_coord, lon_coord) of
        Inl e \<Rightarrow> Inl e
      | Inr (d, pos) \<Rightarrow> Inr pos)"

section \<open>\<open>windspeed_point_df_maker\<close>\<close>

text \<open>
  Assigning a frame to a column aligns it on the row labels. Both frames carry the default
  labels \<open>0, 1, \<dots>\<close>, so row \<open>i\<close> receives entry \<open>i\<close> of the assigned column, or \<open>nan\<close> when
  the column is too short; surplus entries are dropped.
\<close>

definition reindex :: "nat \<Rightarrow> f64 list \<Rightarrow> f64 list" where
  "reindex n xs = map (\<lambda>i. if i < length xs then xs ! i else NaN) [0..<n]"

text \<open>
  \<^verbatim>\<open>
  def windspeed_point_df_maker(time_df, coords_df, windspeed, POI_indx):
      df = pd.DataFrame(dtype = float)
      df['year'] = time_df['date_time'].dt.year
      df['month'] = time_df['date_time'].dt.month
      df['day'] = time_df['date_time'].dt.day
      df['hour'] = time_df['date_time'].dt.hour
      df['latitude'] = coords_df['latitude'].iloc[POI_indx]
      df['longitude'] = coords_df['longitude'].iloc[POI_indx]
      df['windspeed'] = windspeed_100
      df['avg_windspeed'] = df['windspeed'].mean()
      return df;
  \<close>
  The body reads the notebook's global \<open>windspeed_100\<close>, not its parameter \<open>windspeed\<close>
  (\<open>windspeed_arg\<close> below, since \<open>windspeed\<close> names the column);
  the global is the first argument of the model. The time index is taken non-empty (on an
  empty one pandas would adopt the row labels of \<open>windspeed_100\<close>). The frame is returned
  by its rows.
\<close>

definition windspeed_point_df_maker ::
  "f64 list \<Rightarrow> timestamp list \<Rightarrow> (real \<times> real) list \<Rightarrow> f64 list \<Rightarrow> nat \<Rightarrow> error + row list" where
  "windspeed_point_df_maker windspeed_100 time_df coords_df windspeed_arg POI_indx =
     (if length coords_df \<le> POI_indx then Inl IndexError
      else
        let column = reindex (length time_df) windspeed_100;
            avg = mean column
        in Inr (map2 (\<lambda>t w.
                  \<lparr>year = ts_year t, month = ts_month t, day = ts_day t, hour = ts_hour t,
                   latitude = fst (coords_df ! POI_indx),
                   longitude = snd (coords_df ! POI_indx),
                   windspeed = w, avg_windspeed = avg\<rparr>) time_df column))"

section \<open>\<open>time_subset\<close>\<close>

text \<open>
  \<open>df.groupby(keys, as_index = False)\<close> with pandas' defaults: rows with a missing key
  are dropped, every distinct key that is left makes one group, and the groups come in
  ascending order of their keys (tuples compare lexicographically). \<open>key\<close> reads the key of
  a row and \<open>na\<close> tells whether a key has a missing component.
\<close>

definition groupby ::
  "(row \<Rightarrow> 'k::linorder) \<Rightarrow> ('k \<Rightarrow> bool) \<Rightarrow> row list \<Rightarrow> ('k \<times> row list) list" where
  "groupby key na df =
     (let kept = filter (\<lambda>r. \<not> na (key r)) df
      in map (\<lambda>k. (k, filter (\<lambda>r. key r = k) kept)) (sort (remdups (map key kept))))"

definition agg_hour :: "row list \<Rightarrow> hour_row list" where
  "agg_hour df =
     map (\<lambda>((y, m, h, a), g).
            \<lparr>hr_year = y, hr_month = m, hr_hour = h, hr_avg_windspeed = a,
             hour_avg_windspeed = mean (map windspeed g),
             hr_standard_dev = std (map windspeed g)\<rparr>)
       (groupby (\<lambda>r. (year r, month r, hour r, avg_windspeed r))
          (\<lambda>(y, m, h, a). a = NaN) df)"

definition agg_day :: "row list \<Rightarrow> day_row list" where
  "agg_day df =
     map (\<lambda>((y, m, d, a), g).
            \<lparr>dy_year = y, dy_month = m, dy_day = d, dy_avg_windspeed = a,
             daily_avg_windspeed = mean (map windspeed g),
             dy_standard_dev = std (map windspeed g), date = None\<rparr>)
       (groupby (\<lambda>r. (year r, month r, day r, avg_windspeed r))
          (\<lambda>(y, m, d, a). a = NaN) df)"

definition agg_month :: "row list \<Rightarrow> month_row list" where
  "agg_month df =
     map (\<lambda>((m, a), g).
            \<lparr>mo_month = m, mo_avg_windspeed = a,
             month_avg_windspeed = mean (map windspeed g),
             mo_standard_dev = std (map windspeed g)\<rparr>)
       (groupby (\<lambda>r. (month r, avg_windspeed r)) (\<lambda>(m, a). a = NaN) df)"

text \<open>\<open>astype(str)\<close> on an integer column: the decimal numeral.\<close>

fun str_nat :: "nat \<Rightarrow> string" where
  "str_nat n =
     (if n < 10 then [''0123456789'' ! n]
      else str_nat (n div 10) @ [''0123456789'' ! (n mod 10)])"

definition str_int :: "int \<Rightarrow> string" where
  "str_int i = (if i < 0 then CHR ''-'' # str_nat (nat (- i)) else str_nat (nat i))"

definition date_string :: "day_row \<Rightarrow> string" where
  "date_string t = str_int (dy_year t) @ ''/'' @ str_int (dy_month t) @ ''/'' @ str_int (dy_day t)"

text \<open>
  \<open>pd.to_datetime\<close> on a column of strings parses every entry or raises; parsing one
  string is the parameter \<open>to_datetime\<close>.
\<close>

fun to_datetime_all :: "(string \<Rightarrow> error + timestamp) \<Rightarrow> string list \<Rightarrow> error + timestamp list" where
  "to_datetime_all to_datetime [] = Inr []"
| "to_datetime_all to_datetime (s # ss) =
     (case to_datetime s of
        Inl e \<Rightarrow> Inl e
      | Inr d \<Rightarrow> (case to_datetime_all to_datetime ss of
                    Inl e \<Rightarrow> Inl e
                  | Inr ds \<Rightarrow> Inr (d # ds)))"

text \<open>
  The statement
  \<^verbatim>\<open>df['date'] = pd.to_datetime(df['year'].astype(str) + '/' + df['month'].astype(str) + '/' + df['day'].astype(str))\<close>
  on the object \<open>df\<close> refers to: the new column is written into that object.
\<close>

definition set_date :: "(string \<Rightarrow> error + timestamp) \<Rightarrow> heap \<Rightarrow> ref \<Rightarrow> error + heap" where
  "set_date to_datetime h df =
     (case deref h df of
        Some (DayTable t) \<Rightarrow>
          (case to_datetime_all to_datetime (map date_string t) of
             Inl e \<Rightarrow> Inl e
           | Inr dates \<Rightarrow> Inr (h[df := DayTable (map2 (\<lambda>r d. r\<lparr>date := Some d\<rparr>) t dates)]))
      | _ \<Rightarrow> Inl KeyError)"

text \<open>
  \<^verbatim>\<open>
  def time_subset(period, df):
      if period == 'hour':
          df = df.groupby(['year','month','hour','avg_windspeed'], as_index = False).agg(hour_avg_windspeed = ('windspeed', 'mean'), standard_dev = ('windspeed', 'std'))
      elif period == 'day':
          df = df.groupby(['year','month','day','avg_windspeed'], as_index = False).agg(daily_avg_windspeed = ('windspeed', 'mean'), standard_dev = ('windspeed', 'std'))
          df['date'] = pd.to_datetime(df['year'].astype(str) + '/' +df['month'].astype(str) + '/' + df['day'].astype(str))
      elif period == 'month':
          df = df.groupby(['month', 'avg_windspeed'], as_index = False).agg(month_avg_windspeed = ('windspeed', 'mean'), standard_dev = ('windspeed', 'std'))
      else:
          print("Period must be desginated as either hour, day, or month")
      return df
  \<close>
  The model takes the store and the reference \<open>df\<close>, and returns the store, the lines
  printed and the reference returned (or the exception). Grouping a frame that lacks the
  named columns raises \<open>KeyError\<close>.
\<close>

definition time_subset ::
  "(string \<Rightarrow> error + timestamp) \<Rightarrow> string \<Rightarrow> heap \<Rightarrow> ref \<Rightarrow> heap \<times> string list \<times> (error + ref)" where
  "time_subset to_datetime period h df =
     (if period = ''hour'' then
        (case deref h df of
           Some (Frame rows) \<Rightarrow>
             (let (h1, df1) = alloc h (HourTable (agg_hour rows)) in (h1, [], Inr df1))
         | _ \<Rightarrow> (h, [], Inl KeyError))
      else if period = ''day'' then
        (case deref h df of
           Some (Frame rows) \<Rightarrow>
             (let (h1, df1) = alloc h (DayTable (agg_day rows))
              in case set_date to_datetime h1 df1 of
                   Inl e \<Rightarrow> (h1, [], Inl e)
                 | Inr h2 \<Rightarrow> (h2, [], Inr df1))
         | _ \<Rightarrow> (h, [], Inl KeyError))
      else if period = ''month'' then
        (case deref h df of
           Some (Frame rows) \<Rightarrow>
             (let (h1, df1) = alloc h (MonthTable (agg_month rows)) in (h1, [], Inr df1))
         | _ \<Rightarrow> (h, [], Inl KeyError))
      else (h, [''Period must be desginated as either hour, day, or month''], Inr df))"

section \<open>\<open>multiple_site_index\<close>\<close>

text \<open>
  \<open>POI_df[label][ind]\<close>: the column under the label, then the entry at row label \<open>ind\<close>.
\<close>

definition getitem :: "points \<Rightarrow> string \<Rightarrow> int \<Rightarrow> error + real" where
  "getitem P label ind =
     (case map_of (zip (columns P) (cells P)) label of
        None \<Rightarrow> Inl KeyError
      | Some column \<Rightarrow>
          (case map_of (zip (index P) column) ind of
             None \<Rightarrow> Inl KeyError
           | Some v \<Rightarrow> Inr v))"

text \<open>
  \<open>results[ind]\<close> selects the column labelled by the integer \<open>ind\<close>. The empty frame has
  no column, and no other frame of the store has an integer label, so the selection raises
  \<open>KeyError\<close>. A column, had there been one, is not callable.
\<close>

fun column_of :: "pyobj \<Rightarrow> int \<Rightarrow> error + f64 list" where
  "column_of EmptyFrame ind = Inl KeyError"
| "column_of obj ind = Inl KeyError"

definition call_column :: "f64 list \<Rightarrow> nat \<Rightarrow> error + unit" where
  "call_column column POI_indx = Inl TypeError"

text \<open>
  \<^verbatim>\<open>
  def multiple_site_index(POI_df, coord_array):
      POI_df.columns = ['lat', 'lon']
      results = pd.DataFrame(dtype = float)
      for ind in POI_df.index:
          lat = POI_df['lat'][ind]
          lon = POI_df['lon'][ind]
          POI_indx = nearest_site(coord_array, lat, lon)
          results[ind](POI_indx)
      return results
  \<close>
  The loop only reads \<open>POI_df\<close> and \<open>results\<close>, so it receives their values. Assigning two
  labels to \<open>.columns\<close> raises \<open>ValueError\<close> on a frame that does not have two columns,
  which is every frame of the store other than a two-column frame of points.
\<close>

fun site_loop ::
  "kdquery \<Rightarrow> (real \<times> real) list \<Rightarrow> points \<Rightarrow> pyobj \<Rightarrow> int list \<Rightarrow> error + unit" where
  "site_loop cKDTree_query coord_array P results [] = Inr ()"
| "site_loop cKDTree_query coord_array P results (ind # inds) =
     (case getitem P ''lat'' ind of
        Inl e \<Rightarrow> Inl e
      | Inr lat \<Rightarrow>
     (case getitem P ''lon'' ind of
        Inl e \<Rightarrow> Inl e
      | Inr lon \<Rightarrow>
     (case nearest_site cKDTree_query coord_array lat lon of
        Inl e \<Rightarrow> Inl e
      | Inr POI_indx \<Rightarrow>
     (case column_of results ind of
        Inl e \<Rightarrow> Inl e
      | Inr column \<Rightarrow>
     (case call_column column POI_indx of
        Inl e \<Rightarrow> Inl e
      | Inr u \<Rightarrow> site_loop cKDTree_query coord_array P results inds)))))"

definition multiple_site_index ::
  "kdquery \<Rightarrow> heap \<Rightarrow> ref \<Rightarrow> (real \<times> real) list \<Rightarrow> heap \<times> (error + ref)" where
  "multiple_site_index cKDTree_query h POI_df coord_array =
     (case deref h POI_df of
        Some (Points P) \<Rightarrow>
          if length (columns P) \<noteq> 2 then (h, Inl ValueError)
          else
            let P' = P\<lparr>columns := [''lat'', ''lon'']\<rparr>;
                h1 = h[POI_df := Points P'];
                (h2, results) = alloc h1 EmptyFrame
            in (case site_loop cKDTree_query coord_array P' EmptyFrame (index P') of
                  Inl e \<Rightarrow> (h2, Inl e)
                | Inr u \<Rightarrow> (h2, Inr results))
      | _ \<Rightarrow> (h, Inl ValueError))"

text \<open>
  The earlier draft of the function under \<open>archive/\<close> collects the indices in a list:
  \<^verbatim>\<open>
  def multiple_site_index(POI_df, coord_array):
      POI_df.columns = ['lat', 'lon']
      results = []
      for ind in POI_df.index:
          lat = POI_df['lat'][ind]
          lon = POI_df['lon'][ind]
          POI_indx = nearest_site(coord_array, lat, lon)
          results.append(POI_indx)
      return results
  \<close>
\<close>

fun site_loop_archive ::
  "kdquery \<Rightarrow> (real \<times> real) list \<Rightarrow> points \<Rightarrow> nat list \<Rightarrow> int list \<Rightarrow> error + nat list" where
  "site_loop_archive cKDTree_query coord_array P results [] = Inr results"
| "site_loop_archive cKDTree_query coord_array P results (ind # inds) =
     (case getitem P ''lat'' ind of
        Inl e \<Rightarrow> Inl e
      | Inr lat \<Rightarrow>
     (case getitem P ''lon'' ind of
        Inl e \<Rightarrow> Inl e
      | Inr lon \<Rightarrow>
     (case nearest_site cKDTree_query coord_array lat lon of
        Inl e \<Rightarrow> Inl e
      | Inr POI_indx \<Rightarrow>
          site_loop_archive cKDTree_query coord_array P (results @ [POI_indx]) inds)))"

definition multiple_site_index_archive ::
  "kdquery \<Rightarrow> heap \<Rightarrow> ref \<Rightarrow> (real \<times> real) list \<Rightarrow> heap \<times> (error + nat list)" where
  "multiple_site_index_archive cKDTree_query h POI_df coord_array =
     (case deref h POI_df of
        Some (Points P) \<Rightarrow>
          if length (columns P) \<noteq> 2 then (h, Inl ValueError)
          else
            let P' = P\<lparr>columns := [''lat'', ''lon'']\<rparr>;
                h1 = h[POI_df := Points P']
            in (h1, site_loop_archive cKDTree_query coord_array P' [] (index P'))
      | _ \<Rightarrow> (h, Inl ValueError))"

section \<open>Inputs and reference tables used in the statements\<close>

text \<open>
  The hourly time index of a whole calendar year \<open>y\<close>: every hour 0 to 23 of every day of
  every month 1 to 12, in order (8760 entries, 8784 in a leap year).
\<close>

definition leap_year :: "int \<Rightarrow> bool" where
  "leap_year y \<longleftrightarrow> y mod 4 = 0 \<and> (y mod 100 \<noteq> 0 \<or> y mod 400 = 0)"

definition days_in_month :: "int \<Rightarrow> int \<Rightarrow> int" where
  "days_in_month y m =
     (if m = 2 then (if leap_year y then 29 else 28)
      else if m = 4 \<or> m = 6 \<or> m = 9 \<or> m = 11 then 30
      else 31)"

definition year_hours :: "int \<Rightarrow> timestamp list" where
  "year_hours y =
     concat (map (\<lambda>m.
       concat (map (\<lambda>d.
         map (\<lambda>h. \<lparr>ts_year = y, ts_month = m, ts_day = d, ts_hour = h\<rparr>) [0..23])
         [1..days_in_month y m]))
       [1..12])"

text \<open>
  The tables of a grouping by the temporal keys alone, with a given value \<open>c\<close> written
  into the \<open>avg_windspeed\<close> column of every row. They are what \<open>agg_hour\<close>, \<open>agg_day\<close> and
  \<open>agg_month\<close> are compared with.
\<close>

definition temporal_agg_hour :: "f64 \<Rightarrow> row list \<Rightarrow> hour_row list" where
  "temporal_agg_hour c df =
     map (\<lambda>((y, m, h), g).
            \<lparr>hr_year = y, hr_month = m, hr_hour = h, hr_avg_windspeed = c,
             hour_avg_windspeed = mean (map windspeed g),
             hr_standard_dev = std (map windspeed g)\<rparr>)
       (groupby (\<lambda>r. (year r, month r, hour r)) (\<lambda>k. False) df)"

definition temporal_agg_day :: "f64 \<Rightarrow> row list \<Rightarrow> day_row list" where
  "temporal_agg_day c df =
     map (\<lambda>((y, m, d), g).
            \<lparr>dy_year = y, dy_month = m, dy_day = d, dy_avg_windspeed = c,
             daily_avg_windspeed = mean (map windspeed g),
             dy_standard_dev = std (map windspeed g), date = None\<rparr>)
       (groupby (\<lambda>r. (year r, month r, day r)) (\<lambda>k. False) df)"

definition temporal_agg_month :: "f64 \<Rightarrow> row list \<Rightarrow> month_row list" where
  "temporal_agg_month c df =
     map (\<lambda>(m, g).
            \<lparr>mo_month = m, mo_avg_windspeed = c,
             month_avg_windspeed = mean (map windspeed g),
             mo_standard_dev = std (map windspeed g)\<rparr>)
       (groupby (\<lambda>r. month r) (\<lambda>k. False) df)"

section \<open>Properties of \<open>h5_extractor\<close>\<close>


text \<open>
  C5. For a variable of the file, a site index inside the array and a non-zero scale
  factor \<open>s\<close>, \<open>h5_extractor\<close> returns the stored column of that site with every entry
  divided by \<open>s\<close>. The witness is the raw value 500 with scale factor 100, decoded to 5.
\<close>

theorem h5_extractor_scaled:
  assumes "raw_h5 variable = Some ds"
    and "POI_indx < length (sites ds)"
    and "attrs ds ''scale_factor'' = Some (Num s)"
    and "s \<noteq> 0"
  shows "h5_extractor raw_h5 variable POI_indx
           = Inr (map (\<lambda>x. Fin (x / s)) (sites ds ! POI_indx))"
  using assms by (simp add: h5_extractor_def)

theorem h5_extractor_scaled_witness:
  "h5_extractor
     [''windspeed_100m'' \<mapsto> \<lparr>sites = [[500]], attrs = [''scale_factor'' \<mapsto> Num 100]\<rparr>]
     ''windspeed_100m'' 0 = Inr [Fin 5]"
  using h5_extractor_scaled
    [of "[''windspeed_100m'' \<mapsto> \<lparr>sites = [[500]], attrs = [''scale_factor'' \<mapsto> Num 100]\<rparr>]"
        "''windspeed_100m''" "\<lparr>sites = [[500]], attrs = [''scale_factor'' \<mapsto> Num 100]\<rparr>" 0 100]
  by simp

text \<open>
  C6 at a zero scale factor. With raw values 500, 0 and -500, \<open>h5_extractor\<close> raises
  nothing: it returns the series \<open>inf\<close>, \<open>nan\<close>, \<open>-inf\<close> for \<open>scale_factor = 0\<close> and the
  series \<open>-inf\<close>, \<open>nan\<close>, \<open>inf\<close> for \<open>scale_factor = -0.0\<close>.
\<close>

theorem h5_extractor_zero_scale_counterexample:
  "h5_extractor
     [''windspeed_100m'' \<mapsto>
        \<lparr>sites = [[500, 0, -500]], attrs = [''scale_factor'' \<mapsto> Num 0]\<rparr>]
     ''windspeed_100m'' 0 = Inr [PInf, NaN, NInf]
   \<and> h5_extractor
     [''windspeed_100m'' \<mapsto>
        \<lparr>sites = [[500, 0, -500]], attrs = [''scale_factor'' \<mapsto> NegZero]\<rparr>]
     ''windspeed_100m'' 0 = Inr [NInf, NaN, PInf]"
  by (simp add: h5_extractor_def)

text \<open>
  C6 amended. For a variable of the file and a site index inside the array, a scale factor
  equal to zero (\<open>0\<close>, \<open>+0.0\<close> or \<open>-0.0\<close>) raises nothing: the division is NumPy's, and
  \<open>h5_extractor\<close> returns a column of the same length whose entry is \<open>nan\<close> for a zero
  raw value and an infinity for any other, of the sign of the raw value when the scale
  factor is \<open>0\<close> or \<open>+0.0\<close> and of the opposite sign when it is \<open>-0.0\<close>.
\<close>

theorem h5_extractor_zero_scale:
  assumes "raw_h5 variable = Some ds"
    and "POI_indx < length (sites ds)"
    and "attrs ds ''scale_factor'' = Some z"
    and "z = Num 0 \<or> z = NegZero"
  shows "h5_extractor raw_h5 variable POI_indx
           = Inr (map (\<lambda>x. if x = 0 then NaN
                            else if (0 < x) = (z = Num 0) then PInf
                            else NInf)
                    (sites ds ! POI_indx))"
  using assms by (auto simp: h5_extractor_def)

theorem h5_extractor_zero_scale_witness:
  "h5_extractor
     [''windspeed_80m'' \<mapsto>
        \<lparr>sites = [[7, 3], [0, 12]], attrs = [''scale_factor'' \<mapsto> Num 0]\<rparr>]
     ''windspeed_80m'' 1 = Inr [NaN, PInf]
   \<and> h5_extractor
     [''windspeed_80m'' \<mapsto>
        \<lparr>sites = [[7, 3], [0, -12]], attrs = [''scale_factor'' \<mapsto> NegZero]\<rparr>]
     ''windspeed_80m'' 1 = Inr [NaN, PInf]"
  using h5_extractor_zero_scale
    [of "[''windspeed_80m'' \<mapsto>
           \<lparr>sites = [[7, 3], [0, 12]], attrs = [''scale_factor'' \<mapsto> Num 0]\<rparr>]"
        "''windspeed_80m''"
        "\<lparr>sites = [[7, 3], [0, 12]], attrs = [''scale_factor'' \<mapsto> Num 0]\<rparr>" 1 "Num 0"]
    h5_extractor_zero_scale
    [of "[''windspeed_80m'' \<mapsto>
           \<lparr>sites = [[7, 3], [0, -12]], attrs = [''scale_factor'' \<mapsto> NegZero]\<rparr>]"
        "''windspeed_80m''"
        "\<lparr>sites = [[7, 3], [0, -12]], attrs = [''scale_factor'' \<mapsto> NegZero]\<rparr>" 1 NegZero]
  by simp

section \<open>The store\<close>

lemma set_date_old:
  assumes "set_date to_datetime h df = Inr h'" and "a < length h" and "a \<noteq> df"
  shows "deref h' a = deref h a"
  using assms
  by (auto simp: set_date_def deref_def split: option.splits pyobj.splits sum.splits if_splits)

lemma time_subset_old:
  assumes "a < length h"
  shows "deref (fst (time_subset to_datetime period h df)) a = deref h a"
proof -
  have day_branch: "deref (fst (case set_date to_datetime (h @ [obj]) (length h) of
                 Inl e \<Rightarrow> (h @ [obj], [], Inl e)
               | Inr h2 \<Rightarrow> (h2, [], Inr (length h)))) a = deref h a" for obj
  proof (cases "set_date to_datetime (h @ [obj]) (length h)")
    case (Inl e)
    with assms show ?thesis by (simp add: deref_def nth_append)
  next
    case (Inr h2)
    from set_date_old[OF Inr, of a] assms have "deref h2 a = deref (h @ [obj]) a" by simp
    with Inr assms show ?thesis by (simp add: deref_def nth_append)
  qed
  consider (hour) "period = ''hour''" | (day) "period = ''day''" | (month) "period = ''month''"
    | (other) "period \<noteq> ''hour''" "period \<noteq> ''day''" "period \<noteq> ''month''"
    by blast
  then show ?thesis
  proof cases
    case hour
    with assms show ?thesis
      by (simp add: time_subset_def alloc_def deref_def nth_append split: option.splits pyobj.splits)
  next
    case day
    show ?thesis
    proof (cases "deref h df")
      case None
      with day show ?thesis by (simp add: time_subset_def)
    next
      case (Some obj)
      with day day_branch show ?thesis
        by (cases obj) (simp_all add: time_subset_def alloc_def)
    qed
  next
    case month
    with assms show ?thesis
      by (simp add: time_subset_def alloc_def deref_def nth_append split: option.splits pyobj.splits)
  next
    case other
    then show ?thesis by (simp add: time_subset_def)
  qed
qed

lemma multiple_site_index_old:
  assumes "deref h POI_df = Some (Points P)" and "a < length h"
  shows "deref (fst (multiple_site_index q h POI_df coord_array)) a =
           (if a = POI_df \<and> length (columns P) = 2
            then Some (Points (P\<lparr>columns := [''lat'', ''lon'']\<rparr>))
            else deref h a)"
  using assms
  by (auto simp: multiple_site_index_def alloc_def deref_def nth_append Let_def
           split: sum.splits if_splits)

section \<open>An unsupported period\<close>

text \<open>
  C2 at the period \<open>week\<close>. No \<open>UnsupportedResolutionError\<close> is raised: \<open>time_subset\<close>
  prints one line and returns the frame it was given.
\<close>

theorem time_subset_week_counterexample:
  "time_subset (\<lambda>s. Inl ValueError) ''week''
     [Frame [\<lparr>year = 2012, month = 1, day = 1, hour = 0, latitude = 0, longitude = 0,
              windspeed = Fin 5, avg_windspeed = Fin 5\<rparr>]] 0
   = ([Frame [\<lparr>year = 2012, month = 1, day = 1, hour = 0, latitude = 0, longitude = 0,
              windspeed = Fin 5, avg_windspeed = Fin 5\<rparr>]],
      [''Period must be desginated as either hour, day, or month''], Inr 0)"
  by (simp add: time_subset_def)

text \<open>
  C2 amended. For every period other than \<open>hour\<close>, \<open>day\<close> and \<open>month\<close>, \<open>time_subset\<close>
  raises nothing: it prints the line naming the three periods and returns the very frame
  it was given, leaving the store as it was.
\<close>

theorem time_subset_other_period:
  assumes "period \<noteq> ''hour''" and "period \<noteq> ''day''" and "period \<noteq> ''month''"
  shows "time_subset to_datetime period h df
           = (h, [''Period must be desginated as either hour, day, or month''], Inr df)"
  using assms by (simp add: time_subset_def)

theorem time_subset_other_period_witness:
  "time_subset (\<lambda>s. Inl ValueError) ''year'' [EmptyFrame] 0
     = ([EmptyFrame], [''Period must be desginated as either hour, day, or month''], Inr 0)"
  using time_subset_other_period [of "''year''" "\<lambda>s. Inl ValueError" "[EmptyFrame]" 0]
  by simp

section \<open>The mean attached by \<open>windspeed_point_df_maker\<close>\<close>

lemma fsum_Fin: "fsum (map Fin xs) = Fin (sum_list xs)"
  by (induction xs) (simp_all add: fsum_def)

text \<open>
  C3 at a failing input. The series passed as \<open>windspeed\<close> is \<open>[1, 3]\<close>, of mean 2, while
  the notebook's global \<open>windspeed_100\<close> holds \<open>[5, 7]\<close>: the frame returned carries the
  global's values and their mean 6 on every row.
\<close>

theorem windspeed_point_df_maker_reads_global:
  "windspeed_point_df_maker [Fin 5, Fin 7]
     [\<lparr>ts_year = 2012, ts_month = 1, ts_day = 1, ts_hour = 0\<rparr>,
      \<lparr>ts_year = 2012, ts_month = 1, ts_day = 1, ts_hour = 1\<rparr>]
     [(34, -119)] [Fin 1, Fin 3] 0
   = Inr [\<lparr>year = 2012, month = 1, day = 1, hour = 0, latitude = 34, longitude = -119,
            windspeed = Fin 5, avg_windspeed = Fin 6\<rparr>,
          \<lparr>year = 2012, month = 1, day = 1, hour = 1, latitude = 34, longitude = -119,
            windspeed = Fin 7, avg_windspeed = Fin 6\<rparr>]
   \<and> mean [Fin 1, Fin 3] = Fin 2"
  by (simp add: windspeed_point_df_maker_def reindex_def mean_def fsum_def upt_rec)

section \<open>A batch of query points\<close>

lemma site_loop_raises:
  "inds \<noteq> [] \<Longrightarrow> \<exists>e. site_loop q ca P EmptyFrame inds = Inl e"
  by (cases inds) (auto split: sum.splits simp: call_column_def)

lemma multiple_site_index_raises:
  assumes "deref h POI_df = Some (Points P)" and "index P \<noteq> []"
  shows "\<exists>e. snd (multiple_site_index q h POI_df coord_array) = Inl e"
proof (cases "length (columns P) = 2")
  case False
  with assms show ?thesis by (simp add: multiple_site_index_def)
next
  case True
  from assms(2) obtain e
    where "site_loop q coord_array (P\<lparr>columns := [''lat'', ''lon'']\<rparr>) EmptyFrame (index P) = Inl e"
    using site_loop_raises by blast
  with assms True show ?thesis
    by (simp add: multiple_site_index_def alloc_def)
qed

text \<open>
  The draft under \<open>archive/\<close> does return one site index per query point, in the order of
  the row labels, each the answer of \<open>nearest_site\<close> for that point.
\<close>

lemma site_loop_archive_collects:
  assumes "\<forall>p. \<exists>d. q ca p = Inr (d, pos p)"
    and "\<forall>i \<in> set inds. getitem P ''lat'' i = Inr (la i) \<and> getitem P ''lon'' i = Inr (lo i)"
  shows "site_loop_archive q ca P acc inds = Inr (acc @ map (\<lambda>i. pos (la i, lo i)) inds)"
  using assms(2)
proof (induction inds arbitrary: acc)
  case Nil
  then show ?case by simp
next
  case (Cons i inds)
  from assms(1) obtain d where "q ca (la i, lo i) = Inr (d, pos (la i, lo i))" by blast
  with Cons show ?case by (simp add: nearest_site_def)
qed

lemma multiple_site_index_archive_returns:
  assumes "deref h POI_df = Some (Points P)"
    and "length (columns P) = 2"
    and "\<forall>p. \<exists>d. q ca p = Inr (d, pos p)"
    and "\<forall>i \<in> set (index P).
           getitem (P\<lparr>columns := [''lat'', ''lon'']\<rparr>) ''lat'' i = Inr (la i)
         \<and> getitem (P\<lparr>columns := [''lat'', ''lon'']\<rparr>) ''lon'' i = Inr (lo i)"
  shows "snd (multiple_site_index_archive q h POI_df ca)
           = Inr (map (\<lambda>i. pos (la i, lo i)) (index P))"
proof -
  have "site_loop_archive q ca (P\<lparr>columns := [''lat'', ''lon'']\<rparr>) [] (index P)
          = Inr ([] @ map (\<lambda>i. pos (la i, lo i)) (index P))"
    using assms(3,4) by (rule site_loop_archive_collects)
  with assms(1,2) show ?thesis
    by (simp add: multiple_site_index_archive_def)
qed

text \<open>
  C4 at a failing input. On a batch of one query point, with a tree query that answers
  site 0, \<open>multiple_site_index\<close> relabels the columns, allocates the empty \<open>results\<close> frame
  and raises \<open>KeyError\<close> at \<open>results[ind]\<close>: no site index is returned.
\<close>

theorem multiple_site_index_key_error:
  "multiple_site_index (\<lambda>coord_array x. Inr (Fin 0, 0))
     [Points \<lparr>columns = [''latitude'', ''longitude''], index = [0], cells = [[34], [-119]]\<rparr>]
     0 [(34, -119)]
   = ([Points \<lparr>columns = [''lat'', ''lon''], index = [0], cells = [[34], [-119]]\<rparr>, EmptyFrame],
      Inl KeyError)"
  by (simp add: multiple_site_index_def deref_def alloc_def getitem_def nearest_site_def)

section \<open>What a call leaves of its inputs\<close>

text \<open>
  C9, as the code has it. \<open>multiple_site_index\<close> assigns to \<open>POI_df.columns\<close>: a frame of
  points labelled \<open>latitude\<close>, \<open>longitude\<close> is labelled \<open>lat\<close>, \<open>lon\<close> after the call.
\<close>

theorem multiple_site_index_relabels_counterexample:
  "deref (fst (multiple_site_index (\<lambda>coord_array x. Inr (Fin 0, 0))
                 [Points \<lparr>columns = [''latitude'', ''longitude''], index = [], cells = [[], []]\<rparr>]
                 0 [(34, -119)])) 0
   \<noteq> deref [Points \<lparr>columns = [''latitude'', ''longitude''], index = [], cells = [[], []]\<rparr>] 0"
  by (simp add: multiple_site_index_def deref_def alloc_def)

text \<open>
  C9 amended. Every object that exists before the call is the same after \<open>time_subset\<close>,
  whatever the period and the frame passed. After \<open>multiple_site_index\<close> every such object
  is the same too, except the frame of points passed in: its row labels and values are
  kept, and its column labels are overwritten with \<open>lat\<close>, \<open>lon\<close> when it has two columns
  (otherwise the assignment raises and the frame is unchanged).
\<close>

theorem calls_leave_store:
  assumes "a < length h"
  shows "deref (fst (time_subset to_datetime period h df)) a = deref h a
       \<and> (deref h POI_df = Some (Points P) \<longrightarrow>
            deref (fst (multiple_site_index q h POI_df coord_array)) a =
              (if a = POI_df \<and> length (columns P) = 2
               then Some (Points (P\<lparr>columns := [''lat'', ''lon'']\<rparr>))
               else deref h a))"
  using assms time_subset_old multiple_site_index_old by simp

theorem calls_leave_store_witness:
  "deref (fst (time_subset (\<lambda>s. Inl ValueError) ''day''
                 [Points \<lparr>columns = [''y'', ''x''], index = [7], cells = [[1], [2]]\<rparr>, Frame []] 1)) 0
     = Some (Points \<lparr>columns = [''y'', ''x''], index = [7], cells = [[1], [2]]\<rparr>)
   \<and> deref (fst (multiple_site_index (\<lambda>coord_array x. Inl ValueError)
                 [Points \<lparr>columns = [''y'', ''x''], index = [7], cells = [[1], [2]]\<rparr>, Frame []]
                 0 [])) 0
     = Some (Points \<lparr>columns = [''lat'', ''lon''], index = [7], cells = [[1], [2]]\<rparr>)"
  using calls_leave_store
    [of 0 "[Points \<lparr>columns = [''y'', ''x''], index = [7], cells = [[1], [2]]\<rparr>, Frame []]"
        "\<lambda>s. Inl ValueError" "''day''" 1 0
        "\<lparr>columns = [''y'', ''x''], index = [7], cells = [[1], [2]]\<rparr>"
        "\<lambda>coord_array x. Inl ValueError" "[]"]
  by (simp add: deref_def)

section \<open>Grouping\<close>

lemma groupby_member:
  assumes "(k, g) \<in> set (groupby key na df)"
  shows "\<not> na k" and "g = filter (\<lambda>r. key r = k) df" and "\<exists>r \<in> set df. key r = k"
proof -
  let ?kept = "filter (\<lambda>r. \<not> na (key r)) df"
  from assms have k: "k \<in> set (map key ?kept)" and g: "g = filter (\<lambda>r. key r = k) ?kept"
    by (auto simp: groupby_def)
  from k show "\<not> na k" by auto
  then have "filter (\<lambda>r. key r = k) ?kept = filter (\<lambda>r. key r = k) df"
    by (auto intro: filter_cong)
  with g show "g = filter (\<lambda>r. key r = k) df" by simp
  from k show "\<exists>r \<in> set df. key r = k" by auto
qed

lemma groupby_has_key:
  assumes "r \<in> set df" and "\<not> na (key r)"
  shows "(key r, filter (\<lambda>r'. key r' = key r) df) \<in> set (groupby key na df)"
proof -
  let ?kept = "filter (\<lambda>r. \<not> na (key r)) df"
  let ?group = "\<lambda>k. (k, filter (\<lambda>r'. key r' = k) ?kept)"
  from assms have "key r \<in> set (sort (remdups (map key ?kept)))" by simp
  then have "?group (key r) \<in> ?group ` set (sort (remdups (map key ?kept)))"
    by (rule imageI)
  then have "?group (key r) \<in> set (groupby key na df)"
    by (simp add: groupby_def)
  moreover from assms(2) have "filter (\<lambda>r'. key r' = key r) ?kept = filter (\<lambda>r'. key r' = key r) df"
    by (auto intro: filter_cong)
  ultimately show ?thesis by simp
qed

lemma sort_remdups_map:
  assumes "strict_mono emb"
  shows "sort (remdups (map emb xs)) = map emb (sort (remdups xs))"
proof (rule sorted_distinct_set_unique)
  show "sorted (sort (remdups (map emb xs)))" by simp
  show "distinct (sort (remdups (map emb xs)))" by simp
  have "mono emb" using assms by (rule strict_mono_mono)
  then show "sorted (map emb (sort (remdups xs)))"
    by (simp add: sorted_map sorted_wrt_mono_rel[of _ "(\<le>)"] monoD)
  have "inj emb" using assms by (rule strict_mono_imp_inj_on)
  then show "distinct (map emb (sort (remdups xs)))"
    by (simp add: distinct_map inj_on_def)
  show "set (sort (remdups (map emb xs))) = set (map emb (sort (remdups xs)))" by simp
qed

lemma groupby_embed:
  assumes key': "\<forall>r \<in> set df. key' r = emb (key r)"
    and emb: "strict_mono emb"
    and na: "\<forall>r \<in> set df. \<not> na (key' r)"
  shows "groupby key' na df = map (\<lambda>(k, g). (emb k, g)) (groupby key (\<lambda>k. False) df)"
proof -
  have inj: "emb a = emb b \<longleftrightarrow> a = b" for a b
    using emb by (simp add: strict_mono_eq)
  from na have kept: "filter (\<lambda>r. \<not> na (key' r)) df = df" by simp
  from key' have keys: "map key' df = map emb (map key df)" by simp
  have groups: "filter (\<lambda>r. key' r = emb k) df = filter (\<lambda>r. key r = k) df" for k
    using key' inj by (auto intro: filter_cong)
  have "sort (remdups (map key' df)) = map emb (sort (remdups (map key df)))"
    unfolding keys by (rule sort_remdups_map[OF emb])
  then show ?thesis
    by (simp add: groupby_def kept groups comp_def)
qed


section \<open>Groups of one sample\<close>

lemma std_short: "length xs \<le> 1 \<Longrightarrow> std xs = NaN"
proof -
  assume "length xs \<le> 1"
  moreover have "length (filter (\<lambda>x. x \<noteq> NaN) xs) \<le> length xs" by (rule length_filter_le)
  ultimately have "length (filter (\<lambda>x. x \<noteq> NaN) xs) \<le> 1" by linarith
  then show ?thesis by (simp add: std_def Let_def)
qed

lemma time_subset_hour:
  "deref h df = Some (Frame rows) \<Longrightarrow>
   time_subset to_datetime ''hour'' h df = (h @ [HourTable (agg_hour rows)], [], Inr (length h))"
  by (simp add: time_subset_def alloc_def)

lemma time_subset_month:
  "deref h df = Some (Frame rows) \<Longrightarrow>
   time_subset to_datetime ''month'' h df = (h @ [MonthTable (agg_month rows)], [], Inr (length h))"
  by (simp add: time_subset_def alloc_def)

lemma to_datetime_all_ok:
  "\<forall>s \<in> set ss. \<exists>d. to_datetime s = Inr d \<Longrightarrow>
   \<exists>ds. to_datetime_all to_datetime ss = Inr ds \<and> length ds = length ss"
proof (induction ss)
  case Nil
  then show ?case by simp
next
  case (Cons s ss)
  then obtain d ds where "to_datetime s = Inr d" "to_datetime_all to_datetime ss = Inr ds"
    "length ds = length ss" by auto
  then show ?case by simp
qed

lemma time_subset_day:
  assumes "deref h df = Some (Frame rows)"
    and "to_datetime_all to_datetime (map date_string (agg_day rows)) = Inr dates"
  shows "time_subset to_datetime ''day'' h df
           = (h @ [DayTable (map2 (\<lambda>r d. r\<lparr>date := Some d\<rparr>) (agg_day rows) dates)], [],
              Inr (length h))"
  using assms by (simp add: time_subset_def alloc_def set_date_def deref_def)

lemma agg_hour_member:
  assumes "g \<in> set (agg_hour rows)"
  shows "hr_avg_windspeed g \<noteq> NaN"
    and "hour_avg_windspeed g = mean (map windspeed (filter (\<lambda>r. year r = hr_year g \<and> month r = hr_month g
            \<and> hour r = hr_hour g \<and> avg_windspeed r = hr_avg_windspeed g) rows))"
    and "hr_standard_dev g = std (map windspeed (filter (\<lambda>r. year r = hr_year g \<and> month r = hr_month g
            \<and> hour r = hr_hour g \<and> avg_windspeed r = hr_avg_windspeed g) rows))"
    and "\<exists>r \<in> set rows. year r = hr_year g \<and> month r = hr_month g
            \<and> hour r = hr_hour g \<and> avg_windspeed r = hr_avg_windspeed g"
proof -
  let ?key = "\<lambda>r. (year r, month r, hour r, avg_windspeed r)"
  let ?na = "\<lambda>(y :: int, m :: int, h :: int, a). a = NaN"
  from assms obtain y m hh a grp where
    mem: "((y, m, hh, a), grp) \<in> set (groupby ?key ?na rows)"
    and g: "g = \<lparr>hr_year = y, hr_month = m, hr_hour = hh, hr_avg_windspeed = a,
             hour_avg_windspeed = mean (map windspeed grp),
             hr_standard_dev = std (map windspeed grp)\<rparr>"
    by (auto simp: agg_hour_def)
  from groupby_member[OF mem] have a: "a \<noteq> NaN"
    and grp: "grp = filter (\<lambda>r. ?key r = (y, m, hh, a)) rows"
    and ex: "\<exists>r \<in> set rows. ?key r = (y, m, hh, a)" by auto
  from a g show "hr_avg_windspeed g \<noteq> NaN" by simp
  from g grp show "hour_avg_windspeed g = mean (map windspeed (filter (\<lambda>r. year r = hr_year g \<and> month r = hr_month g
            \<and> hour r = hr_hour g \<and> avg_windspeed r = hr_avg_windspeed g) rows))" by simp
  from g grp show "hr_standard_dev g = std (map windspeed (filter (\<lambda>r. year r = hr_year g \<and> month r = hr_month g
            \<and> hour r = hr_hour g \<and> avg_windspeed r = hr_avg_windspeed g) rows))" by simp
  from g ex show "\<exists>r \<in> set rows. year r = hr_year g \<and> month r = hr_month g
            \<and> hour r = hr_hour g \<and> avg_windspeed r = hr_avg_windspeed g" by simp
qed

lemma agg_day_member:
  assumes "g \<in> set (agg_day rows)"
  shows "dy_avg_windspeed g \<noteq> NaN"
    and "daily_avg_windspeed g = mean (map windspeed (filter (\<lambda>r. year r = dy_year g \<and> month r = dy_month g
            \<and> day r = dy_day g \<and> avg_windspeed r = dy_avg_windspeed g) rows))"
    and "dy_standard_dev g = std (map windspeed (filter (\<lambda>r. year r = dy_year g \<and> month r = dy_month g
            \<and> day r = dy_day g \<and> avg_windspeed r = dy_avg_windspeed g) rows))"
    and "\<exists>r \<in> set rows. year r = dy_year g \<and> month r = dy_month g
            \<and> day r = dy_day g \<and> avg_windspeed r = dy_avg_windspeed g"
proof -
  let ?key = "\<lambda>r. (year r, month r, day r, avg_windspeed r)"
  let ?na = "\<lambda>(y :: int, m :: int, d :: int, a). a = NaN"
  from assms obtain y m d a grp where
    mem: "((y, m, d, a), grp) \<in> set (groupby ?key ?na rows)"
    and g: "g = \<lparr>dy_year = y, dy_month = m, dy_day = d, dy_avg_windspeed = a,
             daily_avg_windspeed = mean (map windspeed grp),
             dy_standard_dev = std (map windspeed grp), date = None\<rparr>"
    by (auto simp: agg_day_def)
  from groupby_member[OF mem] have a: "a \<noteq> NaN"
    and grp: "grp = filter (\<lambda>r. ?key r = (y, m, d, a)) rows"
    and ex: "\<exists>r \<in> set rows. ?key r = (y, m, d, a)" by auto
  from a g show "dy_avg_windspeed g \<noteq> NaN" by simp
  from g grp show "daily_avg_windspeed g = mean (map windspeed (filter (\<lambda>r. year r = dy_year g \<and> month r = dy_month g
            \<and> day r = dy_day g \<and> avg_windspeed r = dy_avg_windspeed g) rows))" by simp
  from g grp show "dy_standard_dev g = std (map windspeed (filter (\<lambda>r. year r = dy_year g \<and> month r = dy_month g
            \<and> day r = dy_day g \<and> avg_windspeed r = dy_avg_windspeed g) rows))" by simp
  from g ex show "\<exists>r \<in> set rows. year r = dy_year g \<and> month r = dy_month g
            \<and> day r = dy_day g \<and> avg_windspeed r = dy_avg_windspeed g" by simp
qed

lemma agg_month_member:
  assumes "g \<in> set (agg_month rows)"
  shows "mo_avg_windspeed g \<noteq> NaN"
    and "month_avg_windspeed g = mean (map windspeed (filter (\<lambda>r. month r = mo_month g
            \<and> avg_windspeed r = mo_avg_windspeed g) rows))"
    and "mo_standard_dev g = std (map windspeed (filter (\<lambda>r. month r = mo_month g
            \<and> avg_windspeed r = mo_avg_windspeed g) rows))"
    and "\<exists>r \<in> set rows. month r = mo_month g \<and> avg_windspeed r = mo_avg_windspeed g"
proof -
  let ?key = "\<lambda>r. (month r, avg_windspeed r)"
  let ?na = "\<lambda>(m :: int, a). a = NaN"
  from assms obtain m a grp where
    mem: "((m, a), grp) \<in> set (groupby ?key ?na rows)"
    and g: "g = \<lparr>mo_month = m, mo_avg_windspeed = a,
             month_avg_windspeed = mean (map windspeed grp),
             mo_standard_dev = std (map windspeed grp)\<rparr>"
    by (auto simp: agg_month_def)
  from groupby_member[OF mem] have a: "a \<noteq> NaN"
    and grp: "grp = filter (\<lambda>r. ?key r = (m, a)) rows"
    and ex: "\<exists>r \<in> set rows. ?key r = (m, a)" by auto
  from a g show "mo_avg_windspeed g \<noteq> NaN" by simp
  from g grp show "month_avg_windspeed g = mean (map windspeed (filter (\<lambda>r. month r = mo_month g
            \<and> avg_windspeed r = mo_avg_windspeed g) rows))" by simp
  from g grp show "mo_standard_dev g = std (map windspeed (filter (\<lambda>r. month r = mo_month g
            \<and> avg_windspeed r = mo_avg_windspeed g) rows))" by simp
  from g ex show "\<exists>r \<in> set rows. month r = mo_month g \<and> avg_windspeed r = mo_avg_windspeed g" by simp
qed


lemma agg_hour_has_row:
  assumes "r \<in> set rows" and "avg_windspeed r \<noteq> NaN"
  shows "\<exists>g \<in> set (agg_hour rows). hr_year g = year r \<and> hr_month g = month r
           \<and> hr_hour g = hour r \<and> hr_avg_windspeed g = avg_windspeed r"
proof -
  let ?key = "\<lambda>r. (year r, month r, hour r, avg_windspeed r)"
  let ?na = "\<lambda>(y :: int, m :: int, h :: int, a). a = NaN"
  let ?grp = "filter (\<lambda>r'. ?key r' = ?key r) rows"
  let ?g = "\<lparr>hr_year = year r, hr_month = month r, hr_hour = hour r,
            hr_avg_windspeed = avg_windspeed r,
            hour_avg_windspeed = mean (map windspeed ?grp),
            hr_standard_dev = std (map windspeed ?grp)\<rparr>"
  from assms have "(?key r, ?grp) \<in> set (groupby ?key ?na rows)"
    by (intro groupby_has_key) simp_all
  then have "?g \<in> set (agg_hour rows)"
    unfolding agg_hour_def by force
  then show ?thesis by (intro bexI[of _ ?g]) simp_all
qed

lemma agg_day_has_row:
  assumes "r \<in> set rows" and "avg_windspeed r \<noteq> NaN"
  shows "\<exists>g \<in> set (agg_day rows). dy_year g = year r \<and> dy_month g = month r
           \<and> dy_day g = day r \<and> dy_avg_windspeed g = avg_windspeed r"
proof -
  let ?key = "\<lambda>r. (year r, month r, day r, avg_windspeed r)"
  let ?na = "\<lambda>(y :: int, m :: int, d :: int, a). a = NaN"
  let ?grp = "filter (\<lambda>r'. ?key r' = ?key r) rows"
  let ?g = "\<lparr>dy_year = year r, dy_month = month r, dy_day = day r,
            dy_avg_windspeed = avg_windspeed r,
            daily_avg_windspeed = mean (map windspeed ?grp),
            dy_standard_dev = std (map windspeed ?grp), date = None\<rparr>"
  from assms have "(?key r, ?grp) \<in> set (groupby ?key ?na rows)"
    by (intro groupby_has_key) simp_all
  then have "?g \<in> set (agg_day rows)"
    unfolding agg_day_def by force
  then show ?thesis by (intro bexI[of _ ?g]) simp_all
qed

lemma agg_month_has_row:
  assumes "r \<in> set rows" and "avg_windspeed r \<noteq> NaN"
  shows "\<exists>g \<in> set (agg_month rows). mo_month g = month r
           \<and> mo_avg_windspeed g = avg_windspeed r"
proof -
  let ?key = "\<lambda>r. (month r, avg_windspeed r)"
  let ?na = "\<lambda>(m :: int, a). a = NaN"
  let ?grp = "filter (\<lambda>r'. ?key r' = ?key r) rows"
  let ?g = "\<lparr>mo_month = month r, mo_avg_windspeed = avg_windspeed r,
            month_avg_windspeed = mean (map windspeed ?grp),
            mo_standard_dev = std (map windspeed ?grp)\<rparr>"
  from assms have "(?key r, ?grp) \<in> set (groupby ?key ?na rows)"
    by (intro groupby_has_key) simp_all
  then have "?g \<in> set (agg_month rows)"
    unfolding agg_month_def by force
  then show ?thesis by (intro bexI[of _ ?g]) simp_all
qed

lemma single_sample_hour:
  assumes "deref h df = Some (Frame rows)"
  shows "\<exists>t. time_subset to_datetime ''hour'' h df = (h @ [HourTable t], [], Inr (length h))
           \<and> (\<forall>g \<in> set t.
                 length (filter (\<lambda>r. year r = hr_year g \<and> month r = hr_month g \<and> hour r = hr_hour g
                                   \<and> avg_windspeed r = hr_avg_windspeed g) rows) = 1
                 \<longrightarrow> hr_standard_dev g = NaN)
           \<and> (\<forall>r \<in> set rows.
                 avg_windspeed r \<noteq> NaN
                 \<and> length (filter (\<lambda>r'. year r' = year r \<and> month r' = month r \<and> hour r' = hour r
                                   \<and> avg_windspeed r' = avg_windspeed r) rows) = 1
                 \<longrightarrow> (\<exists>g \<in> set t. hr_year g = year r \<and> hr_month g = month r \<and> hr_hour g = hour r
                                   \<and> hr_avg_windspeed g = avg_windspeed r
                                   \<and> hr_standard_dev g = NaN))"
proof (intro exI conjI ballI impI)
  show "time_subset to_datetime ''hour'' h df = (h @ [HourTable (agg_hour rows)], [], Inr (length h))"
    using assms by (rule time_subset_hour)
next
  fix g
  assume "g \<in> set (agg_hour rows)"
    and "length (filter (\<lambda>r. year r = hr_year g \<and> month r = hr_month g \<and> hour r = hr_hour g
                                   \<and> avg_windspeed r = hr_avg_windspeed g) rows) = 1"
  then show "hr_standard_dev g = NaN"
    by (simp add: agg_hour_member(3) std_short)
next
  fix r
  assume r: "r \<in> set rows"
    and one: "avg_windspeed r \<noteq> NaN
                 \<and> length (filter (\<lambda>r'. year r' = year r \<and> month r' = month r \<and> hour r' = hour r
                                   \<and> avg_windspeed r' = avg_windspeed r) rows) = 1"
  from agg_hour_has_row[OF r] one obtain g where g: "g \<in> set (agg_hour rows)"
    and k: "hr_year g = year r" "hr_month g = month r" "hr_hour g = hour r"
      "hr_avg_windspeed g = avg_windspeed r" by blast
  from one k have "hr_standard_dev g = NaN"
    by (simp add: agg_hour_member(3)[OF g] std_short)
  with g k show "\<exists>g \<in> set (agg_hour rows). hr_year g = year r \<and> hr_month g = month r
      \<and> hr_hour g = hour r \<and> hr_avg_windspeed g = avg_windspeed r \<and> hr_standard_dev g = NaN"
    by blast
qed

lemma single_sample_month:
  assumes "deref h df = Some (Frame rows)"
  shows "\<exists>t. time_subset to_datetime ''month'' h df = (h @ [MonthTable t], [], Inr (length h))
           \<and> (\<forall>g \<in> set t.
                 length (filter (\<lambda>r. month r = mo_month g \<and> avg_windspeed r = mo_avg_windspeed g) rows) = 1
                 \<longrightarrow> mo_standard_dev g = NaN)
           \<and> (\<forall>r \<in> set rows.
                 avg_windspeed r \<noteq> NaN
                 \<and> length (filter (\<lambda>r'. month r' = month r
                                   \<and> avg_windspeed r' = avg_windspeed r) rows) = 1
                 \<longrightarrow> (\<exists>g \<in> set t. mo_month g = month r
                                   \<and> mo_avg_windspeed g = avg_windspeed r
                                   \<and> mo_standard_dev g = NaN))"
proof (intro exI conjI ballI impI)
  show "time_subset to_datetime ''month'' h df = (h @ [MonthTable (agg_month rows)], [], Inr (length h))"
    using assms by (rule time_subset_month)
next
  fix g
  assume "g \<in> set (agg_month rows)"
    and "length (filter (\<lambda>r. month r = mo_month g \<and> avg_windspeed r = mo_avg_windspeed g) rows) = 1"
  then show "mo_standard_dev g = NaN"
    by (simp add: agg_month_member(3) std_short)
next
  fix r
  assume r: "r \<in> set rows"
    and one: "avg_windspeed r \<noteq> NaN
                 \<and> length (filter (\<lambda>r'. month r' = month r
                                   \<and> avg_windspeed r' = avg_windspeed r) rows) = 1"
  from agg_month_has_row[OF r] one obtain g where g: "g \<in> set (agg_month rows)"
    and k: "mo_month g = month r" "mo_avg_windspeed g = avg_windspeed r" by blast
  from one k have "mo_standard_dev g = NaN"
    by (simp add: agg_month_member(3)[OF g] std_short)
  with g k show "\<exists>g \<in> set (agg_month rows). mo_month g = month r
      \<and> mo_avg_windspeed g = avg_windspeed r \<and> mo_standard_dev g = NaN"
    by blast
qed

lemma date_strings_parse:
  assumes "\<forall>r \<in> set rows. \<exists>d. to_datetime
             (str_int (year r) @ ''/'' @ str_int (month r) @ ''/'' @ str_int (day r)) = Inr d"
  shows "\<exists>dates. to_datetime_all to_datetime (map date_string (agg_day rows)) = Inr dates
           \<and> length dates = length (agg_day rows)"
proof -
  have "\<forall>s \<in> set (map date_string (agg_day rows)). \<exists>d. to_datetime s = Inr d"
  proof
    fix s
    assume "s \<in> set (map date_string (agg_day rows))"
    then obtain g where g: "g \<in> set (agg_day rows)" and s: "s = date_string g" by auto
    from agg_day_member(4)[OF g] obtain r where "r \<in> set rows"
      "year r = dy_year g" "month r = dy_month g" "day r = dy_day g" by blast
    with assms s show "\<exists>d. to_datetime s = Inr d" by (auto simp: date_string_def)
  qed
  from to_datetime_all_ok[OF this] show ?thesis by simp
qed

lemma single_sample_day:
  assumes "deref h df = Some (Frame rows)"
    and "\<forall>r \<in> set rows. \<exists>d. to_datetime
             (str_int (year r) @ ''/'' @ str_int (month r) @ ''/'' @ str_int (day r)) = Inr d"
  shows "\<exists>t. time_subset to_datetime ''day'' h df = (h @ [DayTable t], [], Inr (length h))
           \<and> (\<forall>g \<in> set t.
                 length (filter (\<lambda>r. year r = dy_year g \<and> month r = dy_month g \<and> day r = dy_day g
                                   \<and> avg_windspeed r = dy_avg_windspeed g) rows) = 1
                 \<longrightarrow> dy_standard_dev g = NaN)
           \<and> (\<forall>r \<in> set rows.
                 avg_windspeed r \<noteq> NaN
                 \<and> length (filter (\<lambda>r'. year r' = year r \<and> month r' = month r \<and> day r' = day r
                                   \<and> avg_windspeed r' = avg_windspeed r) rows) = 1
                 \<longrightarrow> (\<exists>g \<in> set t. dy_year g = year r \<and> dy_month g = month r \<and> dy_day g = day r
                                   \<and> dy_avg_windspeed g = avg_windspeed r
                                   \<and> dy_standard_dev g = NaN))"
proof -
  from date_strings_parse[OF assms(2)] obtain dates where
    dates: "to_datetime_all to_datetime (map date_string (agg_day rows)) = Inr dates"
    and len: "length dates = length (agg_day rows)" by blast
  let ?t = "map2 (\<lambda>r d. r\<lparr>date := Some d\<rparr>) (agg_day rows) dates"
  have sound: "dy_standard_dev g = NaN"
    if g: "g \<in> set ?t"
      and one: "length (filter (\<lambda>r. year r = dy_year g \<and> month r = dy_month g \<and> day r = dy_day g
                                   \<and> avg_windspeed r = dy_avg_windspeed g) rows) = 1" for g
  proof -
    from g obtain g0 d where g0: "g0 \<in> set (agg_day rows)" and eq: "g = g0\<lparr>date := Some d\<rparr>"
      by (auto dest: set_zip_leftD)
    from one eq have "length (filter (\<lambda>r. year r = dy_year g0 \<and> month r = dy_month g0 \<and> day r = dy_day g0
                                   \<and> avg_windspeed r = dy_avg_windspeed g0) rows) = 1" by simp
    with g0 have "dy_standard_dev g0 = NaN" by (simp add: agg_day_member(3) std_short)
    with eq show ?thesis by simp
  qed
  have present: "\<exists>g \<in> set ?t. dy_year g = year r \<and> dy_month g = month r \<and> dy_day g = day r
                                   \<and> dy_avg_windspeed g = avg_windspeed r
                                   \<and> dy_standard_dev g = NaN"
    if r: "r \<in> set rows"
      and one: "avg_windspeed r \<noteq> NaN
                 \<and> length (filter (\<lambda>r'. year r' = year r \<and> month r' = month r \<and> day r' = day r
                                   \<and> avg_windspeed r' = avg_windspeed r) rows) = 1" for r
  proof -
    from agg_day_has_row[OF r] one obtain g0 where g0: "g0 \<in> set (agg_day rows)"
      and k: "dy_year g0 = year r" "dy_month g0 = month r" "dy_day g0 = day r"
        "dy_avg_windspeed g0 = avg_windspeed r" by blast
    from g0 obtain i where i: "i < length (agg_day rows)" "agg_day rows ! i = g0"
      by (auto simp: in_set_conv_nth)
    let ?g = "g0\<lparr>date := Some (dates ! i)\<rparr>"
    from i len have "?t ! i = ?g" by simp
    moreover from i len have "i < length ?t" by simp
    ultimately have mem: "?g \<in> set ?t" by (metis nth_mem)
    from k have "length (filter (\<lambda>r'. year r' = dy_year ?g \<and> month r' = dy_month ?g
        \<and> day r' = dy_day ?g \<and> avg_windspeed r' = dy_avg_windspeed ?g) rows) = 1"
      using one by simp
    from sound[OF mem this] k mem show ?thesis
      by (intro bexI[of _ ?g]) simp_all
  qed
  from time_subset_day[OF assms(1) dates] sound present show ?thesis by blast
qed

text \<open>
  C8. Let \<open>time_subset\<close> run on a frame with period \<open>hour\<close>, \<open>day\<close> or \<open>month\<close>. It raises
  nothing and returns a freshly allocated table (for \<open>day\<close>, provided \<open>pd.to_datetime\<close>
  parses the date strings of the rows). A group is made of the rows of the frame that
  carry one key; pandas forms groups only of rows whose \<open>avg_windspeed\<close> key is not
  missing. Every group of exactly one sample has a row in the table, and its standard
  deviation there is \<open>nan\<close>; conversely every row of the table whose group has exactly
  one sample has the standard deviation \<open>nan\<close>, which is not \<open>0.0\<close>.
\<close>

theorem single_sample_std:
  assumes "deref h df = Some (Frame rows)"
  shows "(\<exists>t. time_subset to_datetime ''hour'' h df = (h @ [HourTable t], [], Inr (length h))
           \<and> (\<forall>g \<in> set t.
                 length (filter (\<lambda>r. year r = hr_year g \<and> month r = hr_month g \<and> hour r = hr_hour g
                                   \<and> avg_windspeed r = hr_avg_windspeed g) rows) = 1
                 \<longrightarrow> hr_standard_dev g = NaN)
           \<and> (\<forall>r \<in> set rows.
                 avg_windspeed r \<noteq> NaN
                 \<and> length (filter (\<lambda>r'. year r' = year r \<and> month r' = month r \<and> hour r' = hour r
                                   \<and> avg_windspeed r' = avg_windspeed r) rows) = 1
                 \<longrightarrow> (\<exists>g \<in> set t. hr_year g = year r \<and> hr_month g = month r \<and> hr_hour g = hour r
                                   \<and> hr_avg_windspeed g = avg_windspeed r
                                   \<and> hr_standard_dev g = NaN)))
       \<and> ((\<forall>r \<in> set rows. \<exists>d. to_datetime
               (str_int (year r) @ ''/'' @ str_int (month r) @ ''/'' @ str_int (day r)) = Inr d)
          \<longrightarrow> (\<exists>t. time_subset to_datetime ''day'' h df = (h @ [DayTable t], [], Inr (length h))
           \<and> (\<forall>g \<in> set t.
                 length (filter (\<lambda>r. year r = dy_year g \<and> month r = dy_month g \<and> day r = dy_day g
                                   \<and> avg_windspeed r = dy_avg_windspeed g) rows) = 1
                 \<longrightarrow> dy_standard_dev g = NaN)
           \<and> (\<forall>r \<in> set rows.
                 avg_windspeed r \<noteq> NaN
                 \<and> length (filter (\<lambda>r'. year r' = year r \<and> month r' = month r \<and> day r' = day r
                                   \<and> avg_windspeed r' = avg_windspeed r) rows) = 1
                 \<longrightarrow> (\<exists>g \<in> set t. dy_year g = year r \<and> dy_month g = month r \<and> dy_day g = day r
                                   \<and> dy_avg_windspeed g = avg_windspeed r
                                   \<and> dy_standard_dev g = NaN))))
       \<and> (\<exists>t. time_subset to_datetime ''month'' h df = (h @ [MonthTable t], [], Inr (length h))
           \<and> (\<forall>g \<in> set t.
                 length (filter (\<lambda>r. month r = mo_month g \<and> avg_windspeed r = mo_avg_windspeed g) rows) = 1
                 \<longrightarrow> mo_standard_dev g = NaN)
           \<and> (\<forall>r \<in> set rows.
                 avg_windspeed r \<noteq> NaN
                 \<and> length (filter (\<lambda>r'. month r' = month r
                                   \<and> avg_windspeed r' = avg_windspeed r) rows) = 1
                 \<longrightarrow> (\<exists>g \<in> set t. mo_month g = month r
                                   \<and> mo_avg_windspeed g = avg_windspeed r
                                   \<and> mo_standard_dev g = NaN)))"
proof (intro conjI impI)
  show "\<exists>t. time_subset to_datetime ''hour'' h df = (h @ [HourTable t], [], Inr (length h))
           \<and> (\<forall>g \<in> set t.
                 length (filter (\<lambda>r. year r = hr_year g \<and> month r = hr_month g \<and> hour r = hr_hour g
                                   \<and> avg_windspeed r = hr_avg_windspeed g) rows) = 1
                 \<longrightarrow> hr_standard_dev g = NaN)
           \<and> (\<forall>r \<in> set rows.
                 avg_windspeed r \<noteq> NaN
                 \<and> length (filter (\<lambda>r'. year r' = year r \<and> month r' = month r \<and> hour r' = hour r
                                   \<and> avg_windspeed r' = avg_windspeed r) rows) = 1
                 \<longrightarrow> (\<exists>g \<in> set t. hr_year g = year r \<and> hr_month g = month r \<and> hr_hour g = hour r
                                   \<and> hr_avg_windspeed g = avg_windspeed r
                                   \<and> hr_standard_dev g = NaN))"
    using assms by (rule single_sample_hour)
next
  assume "\<forall>r \<in> set rows. \<exists>d. to_datetime
               (str_int (year r) @ ''/'' @ str_int (month r) @ ''/'' @ str_int (day r)) = Inr d"
  with assms show "\<exists>t. time_subset to_datetime ''day'' h df = (h @ [DayTable t], [], Inr (length h))
           \<and> (\<forall>g \<in> set t.
                 length (filter (\<lambda>r. year r = dy_year g \<and> month r = dy_month g \<and> day r = dy_day g
                                   \<and> avg_windspeed r = dy_avg_windspeed g) rows) = 1
                 \<longrightarrow> dy_standard_dev g = NaN)
           \<and> (\<forall>r \<in> set rows.
                 avg_windspeed r \<noteq> NaN
                 \<and> length (filter (\<lambda>r'. year r' = year r \<and> month r' = month r \<and> day r' = day r
                                   \<and> avg_windspeed r' = avg_windspeed r) rows) = 1
                 \<longrightarrow> (\<exists>g \<in> set t. dy_year g = year r \<and> dy_month g = month r \<and> dy_day g = day r
                                   \<and> dy_avg_windspeed g = avg_windspeed r
                                   \<and> dy_standard_dev g = NaN))"
    by (rule single_sample_day)
next
  show "\<exists>t. time_subset to_datetime ''month'' h df = (h @ [MonthTable t], [], Inr (length h))
           \<and> (\<forall>g \<in> set t.
                 length (filter (\<lambda>r. month r = mo_month g \<and> avg_windspeed r = mo_avg_windspeed g) rows) = 1
                 \<longrightarrow> mo_standard_dev g = NaN)
           \<and> (\<forall>r \<in> set rows.
                 avg_windspeed r \<noteq> NaN
                 \<and> length (filter (\<lambda>r'. month r' = month r
                                   \<and> avg_windspeed r' = avg_windspeed r) rows) = 1
                 \<longrightarrow> (\<exists>g \<in> set t. mo_month g = month r
                                   \<and> mo_avg_windspeed g = avg_windspeed r
                                   \<and> mo_standard_dev g = NaN))"
    using assms by (rule single_sample_month)
qed

theorem single_sample_std_witness:
  "(\<exists>t. time_subset (\<lambda>s. Inr \<lparr>ts_year = 2012, ts_month = 3, ts_day = 9, ts_hour = 0\<rparr>) ''hour''
          [Frame [\<lparr>year = 2012, month = 3, day = 9, hour = 7, latitude = 34, longitude = -119,
                   windspeed = Fin 5, avg_windspeed = Fin 5\<rparr>]] 0
        = ([Frame [\<lparr>year = 2012, month = 3, day = 9, hour = 7, latitude = 34, longitude = -119,
                   windspeed = Fin 5, avg_windspeed = Fin 5\<rparr>], HourTable t], [], Inr 1)
      \<and> map hr_standard_dev t = [NaN])
 \<and> (\<exists>t. time_subset (\<lambda>s. Inr \<lparr>ts_year = 2012, ts_month = 3, ts_day = 9, ts_hour = 0\<rparr>) ''day''
          [Frame [\<lparr>year = 2012, month = 3, day = 9, hour = 7, latitude = 34, longitude = -119,
                   windspeed = Fin 5, avg_windspeed = Fin 5\<rparr>]] 0
        = ([Frame [\<lparr>year = 2012, month = 3, day = 9, hour = 7, latitude = 34, longitude = -119,
                   windspeed = Fin 5, avg_windspeed = Fin 5\<rparr>], DayTable t], [], Inr 1)
      \<and> map dy_standard_dev t = [NaN])
 \<and> (\<exists>t. time_subset (\<lambda>s. Inr \<lparr>ts_year = 2012, ts_month = 3, ts_day = 9, ts_hour = 0\<rparr>) ''month''
          [Frame [\<lparr>year = 2012, month = 3, day = 9, hour = 7, latitude = 34, longitude = -119,
                   windspeed = Fin 5, avg_windspeed = Fin 5\<rparr>]] 0
        = ([Frame [\<lparr>year = 2012, month = 3, day = 9, hour = 7, latitude = 34, longitude = -119,
                   windspeed = Fin 5, avg_windspeed = Fin 5\<rparr>], MonthTable t], [], Inr 1)
      \<and> map mo_standard_dev t = [NaN])"
proof -
  let ?r = "\<lparr>year = 2012, month = 3, day = 9, hour = 7, latitude = 34, longitude = -119,
                   windspeed = Fin 5, avg_windspeed = Fin 5\<rparr>"
  let ?h = "[Frame [?r]]"
  let ?td = "\<lambda>s :: string. (Inr \<lparr>ts_year = 2012, ts_month = 3, ts_day = 9, ts_hour = 0\<rparr> :: error + timestamp)"
  have d: "deref ?h 0 = Some (Frame [?r])" by (simp add: deref_def)
  note inst = single_sample_std[OF d, of ?td]
  have hour: "time_subset ?td ''hour'' ?h 0 = (?h @ [HourTable [\<lparr>hr_year = 2012, hr_month = 3, hr_hour = 7,
       hr_avg_windspeed = Fin 5, hour_avg_windspeed = mean [Fin 5], hr_standard_dev = std [Fin 5]\<rparr>]], [], Inr 1)"
    by (simp add: time_subset_hour[OF d] agg_hour_def groupby_def)
  have day: "time_subset ?td ''day'' ?h 0 = (?h @ [DayTable [\<lparr>dy_year = 2012, dy_month = 3, dy_day = 9,
       dy_avg_windspeed = Fin 5, daily_avg_windspeed = mean [Fin 5], dy_standard_dev = std [Fin 5],
       date = Some \<lparr>ts_year = 2012, ts_month = 3, ts_day = 9, ts_hour = 0\<rparr>\<rparr>]], [], Inr 1)"
    by (simp add: time_subset_def alloc_def set_date_def deref_def agg_day_def groupby_def)
  have month: "time_subset ?td ''month'' ?h 0 = (?h @ [MonthTable [\<lparr>mo_month = 3,
       mo_avg_windspeed = Fin 5, month_avg_windspeed = mean [Fin 5], mo_standard_dev = std [Fin 5]\<rparr>]], [], Inr 1)"
    by (simp add: time_subset_month[OF d] agg_month_def groupby_def)
  from inst obtain t where
    t: "time_subset ?td ''hour'' ?h 0 = (?h @ [HourTable t], [], Inr (length ?h))"
    and ex: "\<forall>r \<in> set [?r].
                 avg_windspeed r \<noteq> NaN
                 \<and> length (filter (\<lambda>r'. year r' = year r \<and> month r' = month r \<and> hour r' = hour r
                                   \<and> avg_windspeed r' = avg_windspeed r) [?r]) = 1
                 \<longrightarrow> (\<exists>g \<in> set t. hr_year g = year r \<and> hr_month g = month r \<and> hr_hour g = hour r
                                   \<and> hr_avg_windspeed g = avg_windspeed r
                                   \<and> hr_standard_dev g = NaN)"
    by blast
  from t hour have "t = [\<lparr>hr_year = 2012, hr_month = 3, hr_hour = 7,
       hr_avg_windspeed = Fin 5, hour_avg_windspeed = mean [Fin 5], hr_standard_dev = std [Fin 5]\<rparr>]"
    by simp
  with ex have "std [Fin 5] = NaN" by simp
  with hour day month show ?thesis by simp
qed

section \<open>The constant \<open>avg_windspeed\<close> key\<close>

lemma groupby_hour_constant:
  assumes "\<forall>r \<in> set rows. avg_windspeed r = c" and "c \<noteq> NaN"
  shows "groupby (\<lambda>r. (year r, month r, hour r, avg_windspeed r)) (\<lambda>(y, m, h, a). a = NaN) rows
           = map (\<lambda>((y, m, h), g). ((y, m, h, c), g))
               (groupby (\<lambda>r. (year r, month r, hour r)) (\<lambda>k. False) rows)"
proof -
  have "strict_mono (\<lambda>(y :: int, m :: int, h :: int). (y, m, h, c))"
    by (auto simp: strict_mono_def)
  from groupby_embed[OF _ this, of rows "\<lambda>r. (year r, month r, hour r, avg_windspeed r)"
      "\<lambda>r. (year r, month r, hour r)" "\<lambda>(y, m, h, a). a = NaN"] assms
  show ?thesis by (simp add: split_def)
qed

lemma groupby_day_constant:
  assumes "\<forall>r \<in> set rows. avg_windspeed r = c" and "c \<noteq> NaN"
  shows "groupby (\<lambda>r. (year r, month r, day r, avg_windspeed r)) (\<lambda>(y, m, d, a). a = NaN) rows
           = map (\<lambda>((y, m, d), g). ((y, m, d, c), g))
               (groupby (\<lambda>r. (year r, month r, day r)) (\<lambda>k. False) rows)"
proof -
  have "strict_mono (\<lambda>(y :: int, m :: int, d :: int). (y, m, d, c))"
    by (auto simp: strict_mono_def)
  from groupby_embed[OF _ this, of rows "\<lambda>r. (year r, month r, day r, avg_windspeed r)"
      "\<lambda>r. (year r, month r, day r)" "\<lambda>(y, m, d, a). a = NaN"] assms
  show ?thesis by (simp add: split_def)
qed

lemma groupby_month_constant:
  assumes "\<forall>r \<in> set rows. avg_windspeed r = c" and "c \<noteq> NaN"
  shows "groupby (\<lambda>r. (month r, avg_windspeed r)) (\<lambda>(m, a). a = NaN) rows
           = map (\<lambda>(m, g). ((m, c), g)) (groupby (\<lambda>r. month r) (\<lambda>k. False) rows)"
proof -
  have "strict_mono (\<lambda>m :: int. (m, c))"
    by (auto simp: strict_mono_def)
  from groupby_embed[OF _ this, of rows "\<lambda>r. (month r, avg_windspeed r)"
      "\<lambda>r. month r" "\<lambda>(m, a). a = NaN"] assms
  show ?thesis by (simp add: split_def)
qed

lemma agg_hour_constant:
  assumes "\<forall>r \<in> set rows. avg_windspeed r = c" and "c \<noteq> NaN"
  shows "agg_hour rows = temporal_agg_hour c rows"
  unfolding agg_hour_def temporal_agg_hour_def groupby_hour_constant[OF assms]
  by (simp add: split_def comp_def)

lemma agg_day_constant:
  assumes "\<forall>r \<in> set rows. avg_windspeed r = c" and "c \<noteq> NaN"
  shows "agg_day rows = temporal_agg_day c rows"
  unfolding agg_day_def temporal_agg_day_def groupby_day_constant[OF assms]
  by (simp add: split_def comp_def)

lemma agg_month_constant:
  assumes "\<forall>r \<in> set rows. avg_windspeed r = c" and "c \<noteq> NaN"
  shows "agg_month rows = temporal_agg_month c rows"
  unfolding agg_month_def temporal_agg_month_def groupby_month_constant[OF assms]
  by (simp add: split_def comp_def)

lemma time_subset_day_unfold:
  assumes "deref h df = Some (Frame rows)"
  shows "time_subset to_datetime ''day'' h df =
           (case set_date to_datetime (h @ [DayTable (agg_day rows)]) (length h) of
              Inl e \<Rightarrow> (h @ [DayTable (agg_day rows)], [], Inl e)
            | Inr h2 \<Rightarrow> (h2, [], Inr (length h)))"
  using assms by (simp add: time_subset_def alloc_def)

text \<open>
  C10 amended. For a frame whose \<open>avg_windspeed\<close> column holds one value \<open>c\<close> on every row,
  and \<open>c\<close> is not \<open>nan\<close>, grouping by the temporal keys together with \<open>avg_windspeed\<close>
  makes the same groups in the same order as grouping by the temporal keys alone, and the
  table \<open>time_subset\<close> builds for each period is the table of the temporal grouping with
  \<open>c\<close> in the \<open>avg_windspeed\<close> column of every row.
\<close>

theorem constant_key_is_redundant:
  assumes "deref h df = Some (Frame rows)"
    and "\<forall>r \<in> set rows. avg_windspeed r = c"
    and "c \<noteq> NaN"
  shows "map snd (groupby (\<lambda>r. (year r, month r, hour r, avg_windspeed r)) (\<lambda>(y, m, h, a). a = NaN) rows)
           = map snd (groupby (\<lambda>r. (year r, month r, hour r)) (\<lambda>k. False) rows)
       \<and> map snd (groupby (\<lambda>r. (year r, month r, day r, avg_windspeed r)) (\<lambda>(y, m, d, a). a = NaN) rows)
           = map snd (groupby (\<lambda>r. (year r, month r, day r)) (\<lambda>k. False) rows)
       \<and> map snd (groupby (\<lambda>r. (month r, avg_windspeed r)) (\<lambda>(m, a). a = NaN) rows)
           = map snd (groupby (\<lambda>r. month r) (\<lambda>k. False) rows)
       \<and> time_subset to_datetime ''hour'' h df
           = (h @ [HourTable (temporal_agg_hour c rows)], [], Inr (length h))
       \<and> time_subset to_datetime ''day'' h df
           = (case set_date to_datetime (h @ [DayTable (temporal_agg_day c rows)]) (length h) of
                Inl e \<Rightarrow> (h @ [DayTable (temporal_agg_day c rows)], [], Inl e)
              | Inr h2 \<Rightarrow> (h2, [], Inr (length h)))
       \<and> time_subset to_datetime ''month'' h df
           = (h @ [MonthTable (temporal_agg_month c rows)], [], Inr (length h))"
proof (intro conjI)
  show "map snd (groupby (\<lambda>r. (year r, month r, hour r, avg_windspeed r)) (\<lambda>(y, m, h, a). a = NaN) rows)
           = map snd (groupby (\<lambda>r. (year r, month r, hour r)) (\<lambda>k. False) rows)"
    unfolding groupby_hour_constant[OF assms(2,3)] by (simp add: split_def comp_def)
  show "map snd (groupby (\<lambda>r. (year r, month r, day r, avg_windspeed r)) (\<lambda>(y, m, d, a). a = NaN) rows)
           = map snd (groupby (\<lambda>r. (year r, month r, day r)) (\<lambda>k. False) rows)"
    unfolding groupby_day_constant[OF assms(2,3)] by (simp add: split_def comp_def)
  show "map snd (groupby (\<lambda>r. (month r, avg_windspeed r)) (\<lambda>(m, a). a = NaN) rows)
           = map snd (groupby (\<lambda>r. month r) (\<lambda>k. False) rows)"
    unfolding groupby_month_constant[OF assms(2,3)] by (simp add: split_def comp_def)
  show "time_subset to_datetime ''hour'' h df
           = (h @ [HourTable (temporal_agg_hour c rows)], [], Inr (length h))"
    by (simp add: time_subset_hour[OF assms(1)] agg_hour_constant[OF assms(2,3)])
  show "time_subset to_datetime ''day'' h df
           = (case set_date to_datetime (h @ [DayTable (temporal_agg_day c rows)]) (length h) of
                Inl e \<Rightarrow> (h @ [DayTable (temporal_agg_day c rows)], [], Inl e)
              | Inr h2 \<Rightarrow> (h2, [], Inr (length h)))"
    unfolding time_subset_day_unfold[OF assms(1)] agg_day_constant[OF assms(2,3)] by (rule refl)
  show "time_subset to_datetime ''month'' h df
           = (h @ [MonthTable (temporal_agg_month c rows)], [], Inr (length h))"
    by (simp add: time_subset_month[OF assms(1)] agg_month_constant[OF assms(2,3)])
qed

text \<open>
  C10 at a missing mean. A series whose only value is \<open>nan\<close> is decorated with the
  constant \<open>avg_windspeed = nan\<close>; pandas drops the rows whose key is missing, so
  \<open>time_subset\<close> returns an empty month table, while grouping by the month alone makes
  one group.
\<close>

theorem missing_mean_drops_rows_counterexample:
  "windspeed_point_df_maker [NaN] [\<lparr>ts_year = 2012, ts_month = 1, ts_day = 1, ts_hour = 0\<rparr>]
     [(34, -119)] [NaN] 0
     = Inr [\<lparr>year = 2012, month = 1, day = 1, hour = 0, latitude = 34, longitude = -119,
             windspeed = NaN, avg_windspeed = NaN\<rparr>]
   \<and> time_subset (\<lambda>s. Inl ValueError) ''month''
       [Frame [\<lparr>year = 2012, month = 1, day = 1, hour = 0, latitude = 34, longitude = -119,
                windspeed = NaN, avg_windspeed = NaN\<rparr>]] 0
     = ([Frame [\<lparr>year = 2012, month = 1, day = 1, hour = 0, latitude = 34, longitude = -119,
                windspeed = NaN, avg_windspeed = NaN\<rparr>], MonthTable []], [], Inr 1)
   \<and> temporal_agg_month NaN
       [\<lparr>year = 2012, month = 1, day = 1, hour = 0, latitude = 34, longitude = -119,
         windspeed = NaN, avg_windspeed = NaN\<rparr>]
     = [\<lparr>mo_month = 1, mo_avg_windspeed = NaN, month_avg_windspeed = NaN, mo_standard_dev = NaN\<rparr>]"
  by (simp add: windspeed_point_df_maker_def reindex_def mean_def std_def time_subset_def
        deref_def alloc_def agg_month_def temporal_agg_month_def groupby_def)

theorem constant_key_is_redundant_witness:
  "time_subset (\<lambda>s. Inl ValueError) ''month''
       [Frame [\<lparr>year = 2012, month = 1, day = 1, hour = 0, latitude = 34, longitude = -119,
                windspeed = Fin 5, avg_windspeed = Fin 6\<rparr>,
               \<lparr>year = 2012, month = 2, day = 1, hour = 0, latitude = 34, longitude = -119,
                windspeed = Fin 7, avg_windspeed = Fin 6\<rparr>]] 0
     = ([Frame [\<lparr>year = 2012, month = 1, day = 1, hour = 0, latitude = 34, longitude = -119,
                windspeed = Fin 5, avg_windspeed = Fin 6\<rparr>,
               \<lparr>year = 2012, month = 2, day = 1, hour = 0, latitude = 34, longitude = -119,
                windspeed = Fin 7, avg_windspeed = Fin 6\<rparr>],
         MonthTable (temporal_agg_month (Fin 6)
              [\<lparr>year = 2012, month = 1, day = 1, hour = 0, latitude = 34, longitude = -119,
                windspeed = Fin 5, avg_windspeed = Fin 6\<rparr>,
               \<lparr>year = 2012, month = 2, day = 1, hour = 0, latitude = 34, longitude = -119,
                windspeed = Fin 7, avg_windspeed = Fin 6\<rparr>])], [], Inr 1)"
  using constant_key_is_redundant
    [of "[Frame [\<lparr>year = 2012, month = 1, day = 1, hour = 0, latitude = 34, longitude = -119,
                windspeed = Fin 5, avg_windspeed = Fin 6\<rparr>,
               \<lparr>year = 2012, month = 2, day = 1, hour = 0, latitude = 34, longitude = -119,
                windspeed = Fin 7, avg_windspeed = Fin 6\<rparr>]]" 0
        "[\<lparr>year = 2012, month = 1, day = 1, hour = 0, latitude = 34, longitude = -119,
                windspeed = Fin 5, avg_windspeed = Fin 6\<rparr>,
               \<lparr>year = 2012, month = 2, day = 1, hour = 0, latitude = 34, longitude = -119,
                windspeed = Fin 7, avg_windspeed = Fin 6\<rparr>]" "Fin 6" "\<lambda>s. Inl ValueError"]
  by (simp add: deref_def)


section \<open>A full year by month\<close>

lemma reindex_same: "reindex (length xs) xs = xs"
  by (auto simp: reindex_def intro: nth_equalityI)

lemma months_list: "[1..12] = [1, 2, 3, 4, 5, 6, 7, 8, 9, 10, 11, 12 :: int]"
  by (simp add: upto.simps)

lemma year_hours_lengths: "length (year_hours 2012) = 8784 \<and> length (year_hours 2013) = 8760"
  by (simp add: year_hours_def days_in_month_def leap_year_def length_concat comp_def
        months_list sum_list_triv)

lemma year_hours_months: "ts_month ` set (year_hours y) = {1..12}"
proof
  show "ts_month ` set (year_hours y) \<subseteq> {1..12}"
    by (auto simp: year_hours_def)
  show "{1..12} \<subseteq> ts_month ` set (year_hours y)"
  proof
    fix m :: int
    assume m: "m \<in> {1..12}"
    have "1 \<le> days_in_month y m" by (simp add: days_in_month_def)
    with m have "\<exists>m' \<in> {1..12}. \<exists>d \<in> {1..days_in_month y m'}. \<exists>h \<in> {0..23}.
        \<lparr>ts_year = y, ts_month = m, ts_day = 1, ts_hour = 0\<rparr>
          = \<lparr>ts_year = y, ts_month = m', ts_day = d, ts_hour = h\<rparr>"
      by (intro bexI[of _ m] bexI[of _ 1] bexI[of _ 0]) simp_all
    then have "\<lparr>ts_year = y, ts_month = m, ts_day = 1, ts_hour = 0\<rparr> \<in> set (year_hours y)"
      by (simp add: year_hours_def image_iff)
    then show "m \<in> ts_month ` set (year_hours y)" by force
  qed
qed

lemma mean_finite:
  assumes "ws \<noteq> []" and "\<forall>w \<in> set ws. \<exists>v. w = Fin v"
  shows "\<exists>m. mean ws = Fin m"
proof -
  from assms(2) have "\<exists>vs. ws = map Fin vs"
  proof (induction ws)
    case Nil
    then show ?case by simp
  next
    case (Cons w ws)
    then obtain v vs where "w = Fin v" "ws = map Fin vs" by auto
    then have "w # ws = map Fin (v # vs)" by simp
    then show ?case by (rule exI)
  qed
  then obtain vs where vs: "ws = map Fin vs" ..
  have "filter (\<lambda>x. x \<noteq> NaN) (map Fin vs) = map Fin vs"
    by (induction vs) simp_all
  with assms(1) vs show ?thesis by (simp add: mean_def fsum_Fin)
qed

text \<open>
  The mean \<open>windspeed_point_df_maker\<close> attaches is missing only when the series has no
  valid value: with numbers and missing values only, one number is enough for a mean.
\<close>

lemma mean_valid:
  assumes "\<forall>w \<in> set ws. w = NaN \<or> (\<exists>v. w = Fin v)" and "\<exists>v. Fin v \<in> set ws"
  shows "\<exists>m. mean ws = Fin m"
proof -
  let ?vals = "filter (\<lambda>x. x \<noteq> NaN) ws"
  from assms(2) have "?vals \<noteq> []" by (auto simp: filter_empty_conv)
  moreover from assms(1) have "\<forall>w \<in> set ?vals. \<exists>v. w = Fin v" by auto
  ultimately have "\<exists>m. mean ?vals = Fin m" by (rule mean_finite)
  moreover have "mean ?vals = mean ws" by (simp add: mean_def)
  ultimately show ?thesis by simp
qed

lemma mset_groups:
  assumes "distinct ks"
  shows "mset (concat (map (\<lambda>k. filter (\<lambda>r. f r = k) rows) ks))
           = mset (filter (\<lambda>r. f r \<in> set ks) rows)"
  using assms
proof (induction ks)
  case Nil
  then show ?case by simp
next
  case (Cons k ks)
  then have "k \<notin> set ks" by simp
  then have "{#r \<in># mset rows. f r = k#} + {#r \<in># mset rows. f r \<in> set ks#}
               = {#r \<in># mset rows. f r = k \<or> f r \<in> set ks#}"
    by (auto simp: multiset_eq_iff)
  with Cons show ?case by simp
qed

lemma temporal_agg_month_full:
  assumes "month ` set rows = {1..12}"
  shows "temporal_agg_month c rows =
           map (\<lambda>m. \<lparr>mo_month = m, mo_avg_windspeed = c,
                      month_avg_windspeed = mean (map windspeed (filter (\<lambda>r. month r = m) rows)),
                      mo_standard_dev = std (map windspeed (filter (\<lambda>r. month r = m) rows))\<rparr>)
             [1..12]"
proof -
  have "sort (remdups (map month rows)) = [1..12]"
    by (rule sorted_distinct_set_unique) (simp_all add: assms)
  then show ?thesis
    by (simp add: temporal_agg_month_def groupby_def comp_def)
qed


lemma zipped_columns:
  assumes "length ts = length ws"
  shows "map month (map2 (\<lambda>t w. \<lparr>year = ts_year t, month = ts_month t, day = ts_day t,
             hour = ts_hour t, latitude = la, longitude = lo, windspeed = w,
             avg_windspeed = a\<rparr>) ts ws) = map ts_month ts"
    and "map windspeed (map2 (\<lambda>t w. \<lparr>year = ts_year t, month = ts_month t, day = ts_day t,
             hour = ts_hour t, latitude = la, longitude = lo, windspeed = w,
             avg_windspeed = a\<rparr>) ts ws) = ws"
  using assms by (induction ts ws rule: list_induct2) simp_all

lemma decorated_columns:
  assumes "windspeed_point_df_maker windspeed_100 time_df coords_df windspeed_arg POI_indx = Inr rows"
    and "length windspeed_100 = length time_df"
  shows "map month rows = map ts_month time_df"
    and "map windspeed rows = windspeed_100"
    and "\<forall>r \<in> set rows. avg_windspeed r = mean windspeed_100"
proof -
  let ?mk = "\<lambda>t w. \<lparr>year = ts_year t, month = ts_month t, day = ts_day t, hour = ts_hour t,
                   latitude = fst (coords_df ! POI_indx),
                   longitude = snd (coords_df ! POI_indx),
                   windspeed = w, avg_windspeed = mean windspeed_100\<rparr>"
  from assms(2) have "reindex (length time_df) windspeed_100 = windspeed_100"
    using reindex_same[of windspeed_100] by simp
  with assms(1) have rows: "rows = map2 ?mk time_df windspeed_100"
    by (simp add: windspeed_point_df_maker_def split: if_splits)
  from assms(2) have len: "length time_df = length windspeed_100" by simp
  from rows zipped_columns(1)[OF len] show "map month rows = map ts_month time_df" by simp
  from rows zipped_columns(2)[OF len] show "map windspeed rows = windspeed_100" by simp
  from rows show "\<forall>r \<in> set rows. avg_windspeed r = mean windspeed_100"
    by (auto simp: in_set_zip)
qed

text \<open>
  C7. Take the frame \<open>windspeed_point_df_maker\<close> builds over the hourly time index of a
  whole year, with one finite sample for every hour. \<open>time_subset\<close> with period \<open>month\<close>
  returns a table of exactly 12 rows; row \<open>i\<close> is the month \<open>i + 1\<close>, its group (the rows
  of that month) is not empty, and it carries the mean and the standard deviation of the
  group and the mean of the whole series. The 12 groups together hold every row of the
  frame exactly once.
\<close>

theorem full_year_month_table:
  assumes "windspeed_point_df_maker windspeed_100 (year_hours y) coords_df windspeed_arg POI_indx
             = Inr rows"
    and "length windspeed_100 = length (year_hours y)"
    and "\<forall>w \<in> set windspeed_100. \<exists>v. w = Fin v"
    and "deref h df = Some (Frame rows)"
  shows "\<exists>t. time_subset to_datetime ''month'' h df = (h @ [MonthTable t], [], Inr (length h))
           \<and> length t = 12
           \<and> (\<forall>i < 12.
                 mo_month (t ! i) = int i + 1
               \<and> filter (\<lambda>r. month r = int i + 1) rows \<noteq> []
               \<and> month_avg_windspeed (t ! i)
                   = mean (map windspeed (filter (\<lambda>r. month r = int i + 1) rows))
               \<and> mo_standard_dev (t ! i)
                   = std (map windspeed (filter (\<lambda>r. month r = int i + 1) rows))
               \<and> mo_avg_windspeed (t ! i) = mean (map windspeed rows))
           \<and> mset (concat (map (\<lambda>m. filter (\<lambda>r. month r = m) rows) [1..12])) = mset rows"
proof -
  note cols = decorated_columns[OF assms(1,2)]
  let ?c = "mean windspeed_100"
  let ?grp = "\<lambda>m. filter (\<lambda>r. month r = m) rows"
  let ?row = "\<lambda>m. \<lparr>mo_month = m, mo_avg_windspeed = ?c,
                      month_avg_windspeed = mean (map windspeed (?grp m)),
                      mo_standard_dev = std (map windspeed (?grp m))\<rparr>"
  let ?t = "map ?row [1..12]"
  have months: "month ` set rows = {1..12}"
  proof -
    have "month ` set rows = set (map month rows)" by simp
    also have "\<dots> = ts_month ` set (year_hours y)" by (simp add: cols(1))
    finally show ?thesis by (simp add: year_hours_months)
  qed
  have "year_hours y \<noteq> []"
    using year_hours_months[of y] by auto
  with assms(2) have "windspeed_100 \<noteq> []" by auto
  from mean_finite[OF this assms(3)] have c: "?c \<noteq> NaN" by auto
  have "agg_month rows = ?t"
    using agg_month_constant[OF cols(3) c] temporal_agg_month_full[OF months] by simp
  with time_subset_month[OF assms(4)]
  have run: "time_subset to_datetime ''month'' h df = (h @ [MonthTable ?t], [], Inr (length h))"
    by simp
  have len: "length ?t = 12" by simp
  have each: "mo_month (?t ! i) = int i + 1
               \<and> ?grp (int i + 1) \<noteq> []
               \<and> month_avg_windspeed (?t ! i) = mean (map windspeed (?grp (int i + 1)))
               \<and> mo_standard_dev (?t ! i) = std (map windspeed (?grp (int i + 1)))
               \<and> mo_avg_windspeed (?t ! i) = mean (map windspeed rows)" if "i < 12" for i
  proof -
    from that have nth: "[1..12] ! i = int i + 1" by simp
    from that have "int i + 1 \<in> month ` set rows" unfolding months by simp
    then have "?grp (int i + 1) \<noteq> []" by (auto simp: filter_empty_conv)
    with that nth show ?thesis by (simp add: cols(2) add.commute)
  qed
  have part: "mset (concat (map ?grp [1..12])) = mset rows"
  proof -
    have "mset (concat (map ?grp [1..12])) = mset (filter (\<lambda>r. month r \<in> set [1..12]) rows)"
      by (rule mset_groups) simp
    also have "filter (\<lambda>r. month r \<in> set [1..12]) rows = rows"
      using months by (auto simp: filter_id_conv)
    finally show ?thesis .
  qed
  from run len each part show ?thesis by blast
qed

theorem full_year_month_table_witness:
  "\<exists>rows t.
      windspeed_point_df_maker (map (\<lambda>t. Fin 5) (year_hours 2012)) (year_hours 2012)
        [(34, -119)] [] 0 = Inr rows
    \<and> time_subset (\<lambda>s. Inl ValueError) ''month'' [Frame rows] 0
        = ([Frame rows, MonthTable t], [], Inr 1)
    \<and> length t = 12
    \<and> map mo_month t = [1, 2, 3, 4, 5, 6, 7, 8, 9, 10, 11, 12]"
proof -
  obtain rows where rows:
    "windspeed_point_df_maker (map (\<lambda>t. Fin 5) (year_hours 2012)) (year_hours 2012)
        [(34, -119)] [] 0 = Inr rows"
    by (simp add: windspeed_point_df_maker_def Let_def)
  have d: "deref [Frame rows] 0 = Some (Frame rows)" by (simp add: deref_def)
  from full_year_month_table[OF rows _ _ d, of "\<lambda>s. Inl ValueError"]
  obtain t where t: "time_subset (\<lambda>s. Inl ValueError) ''month'' [Frame rows] 0
        = ([Frame rows, MonthTable t], [], Inr 1)" "length t = 12"
      "\<forall>i < 12. mo_month (t ! i) = int i + 1"
    by auto
  from t(2,3) have "map mo_month t = [1, 2, 3, 4, 5, 6, 7, 8, 9, 10, 11, 12]"
    by (intro nth_equalityI) (auto simp: nth_Cons split: nat.splits)
  with rows t(1,2) show ?thesis by (intro exI[of _ rows] exI[of _ t] conjI)
qed


end
